theory Spec2Isabelle
  imports Complex_Main "HOL-Library.Word" "HOL-Library.Multiset"
begin

section \<open>JavaScript values used by the quiz application\<close>

subsection \<open>Strings\<close>

text \<open>
  A JavaScript string is a sequence of UTF-16 code units. String literals of the source
  are written with \<open>js\<close>, which reads each character of an Isabelle string as the code
  unit of the same number (the only character of the source's question bank outside
  ASCII is the superscript two, code unit \<open>0xB2\<close>).
\<close>

type_synonym jschar = "16 word"
type_synonym jsstring = "jschar list"

definition js :: "string \<Rightarrow> jsstring" where
  "js s = map of_char s"

text \<open>
  \<open>String.prototype.trim\<close> removes the code units that ECMAScript calls WhiteSpace or
  LineTerminator from both ends of a string.
\<close>

definition isWhiteSpace :: "jschar \<Rightarrow> bool" where
  "isWhiteSpace c \<longleftrightarrow>
     c = 0x0009 \<or> c = 0x000A \<or> c = 0x000B \<or> c = 0x000C \<or> c = 0x000D \<or> c = 0x0020 \<or>
     c = 0x00A0 \<or> c = 0x1680 \<or> (0x2000 \<le> c \<and> c \<le> 0x200A) \<or> c = 0x2028 \<or>
     c = 0x2029 \<or> c = 0x202F \<or> c = 0x205F \<or> c = 0x3000 \<or> c = 0xFEFF"

definition trim :: "jsstring \<Rightarrow> jsstring" where
  "trim s = rev (dropWhile isWhiteSpace (rev (dropWhile isWhiteSpace s)))"

subsection \<open>Parsed JSON\<close>

text \<open>
  What \<open>JSON.parse\<close> returns. A JSON number is a finite double or an infinity; the
  validator only compares it with \<open>0\<close> and \<open>3\<close>, and an infinity fails that comparison
  as every large rational does, so a number is modelled by its rational value. An
  object is the list of its own properties.
\<close>

datatype json =
    JNull
  | JBool bool
  | JNum rat
  | JStr jsstring
  | JArr "json list"
  | JObj "(jsstring \<times> json) list"

text \<open>
  \<open>property q k\<close> is the expression \<open>q[k]\<close> for a value \<open>q\<close> other than \<open>null\<close>; \<open>None\<close>
  stands for \<open>undefined\<close>. It is used with the four names \<open>question\<close>, \<open>options\<close>,
  \<open>correctAnswer\<close> and \<open>explanation\<close> only, which no built-in prototype defines, so a
  value that is not an object, and an object without the own property, give
  \<open>undefined\<close>.
\<close>

fun property :: "json \<Rightarrow> jsstring \<Rightarrow> json option" where
  "property (JObj kvs) k = map_of kvs k"
| "property _ k = None"

text \<open>\<open>!v || typeof v !== 'string'\<close> is false exactly for a non-empty string.\<close>

fun nonEmptyString :: "json option \<Rightarrow> jsstring option" where
  "nonEmptyString (Some (JStr s)) = (if s = [] then None else Some s)"
| "nonEmptyString _ = None"

fun arrayOf :: "json option \<Rightarrow> json list option" where
  "arrayOf (Some (JArr xs)) = Some xs"
| "arrayOf _ = None"

fun stringOf :: "json \<Rightarrow> jsstring option" where
  "stringOf (JStr s) = Some s"
| "stringOf _ = None"

fun numberOf :: "json option \<Rightarrow> rat option" where
  "numberOf (Some (JNum r)) = Some r"
| "numberOf _ = None"

section \<open>The remote question service (aiService.js)\<close>

subsection \<open>Questions and errors\<close>

record quiz_question =
  question :: jsstring
  options :: "jsstring list"
  correctAnswer :: rat
  explanation :: jsstring

text \<open>
  One constructor for each place where \<open>generateQuizQuestions\<close> throws, or where a call
  it awaits rejects. The errors of the validation loop carry the number
  \<open>index + 1\<close> that the message of the source starts with.
\<close>

datatype error =
    ApiKeyNotConfigured
  | FetchRejected
  | RequestFailed
  | ResponseUnreadable
  | JsonSyntaxError
  | ExpectedArray
  | TypeError
  | InvalidQuestionText nat
  | NotFourOptions nat
  | OptionNotString nat
  | CorrectAnswerOutOfRange nat
  | InvalidExplanation nat

text \<open>
  The object \<open>{question, options, correctAnswer, explanation}\<close> with the four given
  property values, and a question object of the program seen as such a value.
\<close>

definition candidate :: "json \<Rightarrow> json \<Rightarrow> json \<Rightarrow> json \<Rightarrow> json" where
  "candidate text opts answer expl = JObj
     [(js ''question'', text), (js ''options'', opts),
      (js ''correctAnswer'', answer), (js ''explanation'', expl)]"

definition objectOf :: "quiz_question \<Rightarrow> json" where
  "objectOf q =
     candidate (JStr (question q)) (JArr (map JStr (options q))) (JNum (correctAnswer q))
       (JStr (explanation q))"

subsection \<open>The validator\<close>

text \<open>
  The callback of \<open>questions.map\<close> in \<open>generateQuizQuestions\<close> (aiService.js, lines
  119 to 143). Reading a property of \<open>null\<close> throws a \<open>TypeError\<close>; the five checks
  follow in the order of the source, and the result is built from the trimmed strings.
\<close>

definition validateQuestion :: "nat \<Rightarrow> json \<Rightarrow> error + quiz_question" where
  "validateQuestion index q =
    (if q = JNull then Inl TypeError
     else case nonEmptyString (property q (js ''question'')) of
       None \<Rightarrow> Inl (InvalidQuestionText (index + 1))
     | Some text \<Rightarrow>
      (case arrayOf (property q (js ''options'')) of
         None \<Rightarrow> Inl (NotFourOptions (index + 1))
       | Some opts \<Rightarrow>
          if length opts \<noteq> 4 then Inl (NotFourOptions (index + 1))
          else
           (case those (map stringOf opts) of
              None \<Rightarrow> Inl (OptionNotString (index + 1))
            | Some strs \<Rightarrow>
               (case numberOf (property q (js ''correctAnswer'')) of
                  None \<Rightarrow> Inl (CorrectAnswerOutOfRange (index + 1))
                | Some n \<Rightarrow>
                   if n < 0 \<or> n > 3 then Inl (CorrectAnswerOutOfRange (index + 1))
                   else
                    (case nonEmptyString (property q (js ''explanation'')) of
                       None \<Rightarrow> Inl (InvalidExplanation (index + 1))
                     | Some expl \<Rightarrow>
                        Inr \<lparr>question = trim text,
                             options = map trim strs,
                             correctAnswer = n,
                             explanation = trim expl\<rparr>)))))"

text \<open>
  \<open>questions.map\<close> visits the candidates from left to right; the first one that throws
  ends the loop.
\<close>

fun validateAll :: "nat \<Rightarrow> json list \<Rightarrow> error + quiz_question list" where
  "validateAll index [] = Inr []"
| "validateAll index (q # qs) =
     (case validateQuestion index q of
        Inl e \<Rightarrow> Inl e
      | Inr v \<Rightarrow>
         (case validateAll (index + 1) qs of
            Inl e \<Rightarrow> Inl e
          | Inr vs \<Rightarrow> Inr (v # vs)))"

subsection \<open>The rules of the validator, one predicate for each\<close>

text \<open>
  What each check of the validator asks of a candidate, stated on the candidate itself:
  the text is a non-empty string; the options are an array of four entries; every
  option is a string; the correct answer is a number from \<open>0\<close> to \<open>3\<close>; the explanation
  is a non-empty string.
\<close>

definition textPresent :: "json \<Rightarrow> bool" where
  "textPresent c \<longleftrightarrow>
     (case property c (js ''question'') of Some (JStr s) \<Rightarrow> s \<noteq> [] | _ \<Rightarrow> False)"

definition fourOptions :: "json \<Rightarrow> bool" where
  "fourOptions c \<longleftrightarrow>
     (case property c (js ''options'') of Some (JArr xs) \<Rightarrow> length xs = 4 | _ \<Rightarrow> False)"

fun isString :: "json \<Rightarrow> bool" where
  "isString (JStr s) = True"
| "isString _ = False"

definition optionsAreStrings :: "json \<Rightarrow> bool" where
  "optionsAreStrings c \<longleftrightarrow>
     (case property c (js ''options'') of Some (JArr xs) \<Rightarrow> list_all isString xs | _ \<Rightarrow> False)"

definition answerInRange :: "json \<Rightarrow> bool" where
  "answerInRange c \<longleftrightarrow>
     (case property c (js ''correctAnswer'') of Some (JNum r) \<Rightarrow> 0 \<le> r \<and> r \<le> 3 | _ \<Rightarrow> False)"

definition explanationPresent :: "json \<Rightarrow> bool" where
  "explanationPresent c \<longleftrightarrow>
     (case property c (js ''explanation'') of Some (JStr s) \<Rightarrow> s \<noteq> [] | _ \<Rightarrow> False)"

text \<open>The same rules for a question object of the program.\<close>

definition wellFormed :: "quiz_question \<Rightarrow> bool" where
  "wellFormed q \<longleftrightarrow>
     question q \<noteq> [] \<and> length (options q) = 4 \<and>
     0 \<le> correctAnswer q \<and> correctAnswer q \<le> 3 \<and> explanation q \<noteq> []"

text \<open>
  What the quiz needs of a question to show it and to score an answer: four options and
  a correct answer from \<open>0\<close> to \<open>3\<close>.
\<close>

definition usable :: "quiz_question \<Rightarrow> bool" where
  "usable q \<longleftrightarrow> length (options q) = 4 \<and> 0 \<le> correctAnswer q \<and> correctAnswer q \<le> 3"

subsection \<open>generateQuizQuestions\<close>

datatype difficulty = Easy | Medium | Hard

text \<open>
  The network and \<open>JSON.parse\<close> are the environment of \<open>generateQuizQuestions\<close>. A
  value of \<open>remote\<close> says how far one call gets: no API key is configured; \<open>fetch\<close>
  rejects; the response is not \<open>ok\<close>; the body of the response cannot be read as a
  completion with a \<open>content\<close> string; the content (with its code fences removed) is
  not JSON; or \<open>JSON.parse\<close> returns a value.
\<close>

datatype remote =
    NoApiKey
  | NoResponse
  | ResponseNotOk
  | NoContent
  | NotJson
  | Parsed json

text \<open>
  The subject, the difficulty and the number of questions go into the prompt, and the
  number into a console warning; none of them changes what the function returns for a
  given answer of the service.
\<close>

definition generateQuizQuestions ::
    "remote \<Rightarrow> jsstring \<Rightarrow> difficulty \<Rightarrow> nat \<Rightarrow> error + quiz_question list" where
  "generateQuizQuestions remote subject difficulty numberOfQuestions =
    (case remote of
       NoApiKey \<Rightarrow> Inl ApiKeyNotConfigured
     | NoResponse \<Rightarrow> Inl FetchRejected
     | ResponseNotOk \<Rightarrow> Inl RequestFailed
     | NoContent \<Rightarrow> Inl ResponseUnreadable
     | NotJson \<Rightarrow> Inl JsonSyntaxError
     | Parsed (JArr questions) \<Rightarrow> validateAll 0 questions
     | Parsed _ \<Rightarrow> Inl ExpectedArray)"

section \<open>The static question bank (aiService.js)\<close>

subsection \<open>Math.random and the index it picks\<close>

text \<open>
  \<open>Math.random()\<close> returns a double \<open>r\<close> with \<open>0 \<le> r < 1\<close>. Every such double is a
  fraction \<open>mant / 2 ^ scale\<close> with \<open>mant\<close> below \<open>2 ^ 53\<close> and \<open>scale\<close> at most \<open>1074\<close>;
  \<open>unitDouble\<close> says that a pair of numbers is one of them.
\<close>

record dyadic =
  mant :: nat
  scale :: nat

definition unitDouble :: "dyadic \<Rightarrow> bool" where
  "unitDouble d \<longleftrightarrow> mant d < 2 ^ 53 \<and> scale d \<le> 1074 \<and> mant d < 2 ^ scale d"

text \<open>The number of binary digits of a number.\<close>

fun bitlen :: "nat \<Rightarrow> nat" where
  "bitlen n = (if n = 0 then 0 else Suc (bitlen (n div 2)))"

declare bitlen.simps [simp del]

text \<open>
  \<open>Math.random() * (i + 1)\<close> is the product of two doubles (the length of an array is
  below \<open>2 ^ 32\<close>, so \<open>i + 1\<close> is a double), rounded to the nearest double, and to the one
  with the even significand when two are equally near. \<open>roundedProduct d n\<close> is the
  numerator of that double over \<open>2 ^ scale d\<close>: the exact product \<open>mant d * n\<close> when it
  has at most 53 binary digits, and otherwise the product with its digits below the
  first 53 rounded away. \<open>randomIndex d i\<close> is \<open>Math.floor(Math.random() * (i + 1))\<close>
  when \<open>Math.random()\<close> returns \<open>d\<close>.
\<close>

definition roundedProduct :: "dyadic \<Rightarrow> nat \<Rightarrow> nat" where
  "roundedProduct d n =
     (let p = mant d * n
      in if bitlen p \<le> 53 then p
         else
           let s = bitlen p - 53;
               q = p div 2 ^ s;
               r = p mod 2 ^ s
           in (if r > 2 ^ (s - 1) \<or> (r = 2 ^ (s - 1) \<and> odd q) then q + 1 else q) * 2 ^ s)"

definition randomIndex :: "dyadic \<Rightarrow> nat \<Rightarrow> nat" where
  "randomIndex d i = roundedProduct d (i + 1) div 2 ^ scale d"

text \<open>
  Two doubles, \<open>0\<close> and \<open>1/2\<close>, and the source of random numbers that returns the same
  double at every call.
\<close>

definition nought :: dyadic where
  "nought = \<lparr>mant = 0, scale = 0\<rparr>"

definition half :: dyadic where
  "half = \<lparr>mant = 1, scale = 1\<rparr>"

definition always :: "dyadic \<Rightarrow> nat \<Rightarrow> dyadic" where
  "always d i = d"

subsection \<open>shuffleArray\<close>

text \<open>
  \<open>random i\<close> is the double that \<open>Math.random()\<close> returns in the iteration with loop
  index \<open>i\<close>; the function calls it once in every iteration, and
  \<open>j = Math.floor(Math.random() * (i + 1))\<close>. The destructuring assignment reads both
  elements before it writes. The loop counts \<open>i\<close> down from \<open>length - 1\<close> and stops at
  \<open>0\<close>; for the empty array it does not run.
\<close>

fun shuffleLoop :: "(nat \<Rightarrow> dyadic) \<Rightarrow> nat \<Rightarrow> 'a list \<Rightarrow> 'a list" where
  "shuffleLoop random 0 shuffled = shuffled"
| "shuffleLoop random (Suc n) shuffled =
     (let i = Suc n;
          j = randomIndex (random i) i
      in shuffleLoop random n (shuffled[i := shuffled ! j, j := shuffled ! i]))"

definition shuffleArray :: "(nat \<Rightarrow> dyadic) \<Rightarrow> 'a list \<Rightarrow> 'a list" where
  "shuffleArray random array = shuffleLoop random (length array - 1) array"

text \<open>
  The same function on a store of arrays, where an array is known by its address and
  the address of a new array is the number of arrays allocated so far: the spread
  \<open>[...array]\<close> allocates a copy, and every swap writes into the copy.
\<close>

type_synonym 'a store = "'a list list"

fun shuffleLoop_store :: "(nat \<Rightarrow> dyadic) \<Rightarrow> nat \<Rightarrow> nat \<Rightarrow> 'a store \<Rightarrow> 'a store" where
  "shuffleLoop_store random 0 shuffled h = h"
| "shuffleLoop_store random (Suc n) shuffled h =
     (let i = Suc n;
          j = randomIndex (random i) i;
          a = h ! shuffled
      in shuffleLoop_store random n shuffled (h[shuffled := a[i := a ! j, j := a ! i]]))"

definition shuffleArray_store ::
    "(nat \<Rightarrow> dyadic) \<Rightarrow> 'a store \<Rightarrow> nat \<Rightarrow> nat \<times> 'a store" where
  "shuffleArray_store random h array =
     (let shuffled = length h;
          h1 = h @ [h ! array]
      in (shuffled, shuffleLoop_store random (length (h1 ! shuffled) - 1) shuffled h1))"

subsection \<open>Reading a property of the bank object\<close>

text \<open>
  \<open>mockQuestions[subject]\<close> finds an own property of the object literal, or else a
  property that every object inherits from \<open>Object.prototype\<close>, or else nothing.
\<close>

datatype 'a member = Own 'a | Inherited | Undefined

definition objectPrototypeNames :: "jsstring list" where
  "objectPrototypeNames =
     [js ''constructor'', js ''hasOwnProperty'', js ''isPrototypeOf'',
      js ''propertyIsEnumerable'', js ''toLocaleString'', js ''toString'', js ''valueOf'',
      js ''__proto__'', js ''__defineGetter__'', js ''__defineSetter__'',
      js ''__lookupGetter__'', js ''__lookupSetter__'']"

definition member :: "(jsstring \<times> 'a) list \<Rightarrow> jsstring \<Rightarrow> 'a member" where
  "member obj k =
     (case map_of obj k of
        Some v \<Rightarrow> Own v
      | None \<Rightarrow> if k \<in> set objectPrototypeNames then Inherited else Undefined)"

record bank_entry =
  easy :: "quiz_question list"
  medium :: "quiz_question list"
  hard :: "quiz_question list"

fun byDifficulty :: "difficulty \<Rightarrow> bank_entry \<Rightarrow> quiz_question list" where
  "byDifficulty Easy e = easy e"
| "byDifficulty Medium e = medium e"
| "byDifficulty Hard e = hard e"

subsection \<open>The bank with a list for each difficulty (lines 163 to 948)\<close>

definition dataStructures_easy :: "quiz_question list" where
  "dataStructures_easy =
    [\<lparr>question = js ''Which data structure uses LIFO (Last In First Out) principle?'',
      options = [js ''Queue'', js ''Stack'', js ''Tree'', js ''Graph''],
      correctAnswer = 1,
      explanation = js ''Stack follows LIFO principle where the last element inserted is removed first.''\<rparr>,
     \<lparr>question = js ''What is an array?'',
      options = [js ''A list of elements'', js ''A collection of elements of the same type stored in contiguous memory'', js ''A function'', js ''A variable''],
      correctAnswer = 1,
      explanation = js ''An array is a data structure that stores elements of the same type in contiguous memory locations.''\<rparr>,
     \<lparr>question = js ''Which data structure uses FIFO (First In First Out) principle?'',
      options = [js ''Stack'', js ''Queue'', js ''Tree'', js ''Graph''],
      correctAnswer = 1,
      explanation = js ''Queue follows FIFO principle where the first element inserted is removed first.''\<rparr>,
     \<lparr>question = js ''What is a linked list?'',
      options = [js ''A list with links'', js ''A data structure where elements are connected using pointers'', js ''An array'', js ''A tree''],
      correctAnswer = 1,
      explanation = js ''A linked list is a data structure where each element (node) contains data and a reference to the next node.''\<rparr>,
     \<lparr>question = js ''What is the main advantage of using a linked list over an array?'',
      options = [js ''Faster access'', js ''Dynamic size'', js ''Less memory'', js ''No sorting needed''],
      correctAnswer = 1,
      explanation = js ''Linked lists have dynamic size and can easily insert/delete elements without resizing.''\<rparr>]"

definition dataStructures_medium :: "quiz_question list" where
  "dataStructures_medium =
    [\<lparr>question = js ''What is the time complexity of inserting an element at the beginning of a linked list?'',
      options = [js ''O(n)'', js ''O(log n)'', js ''O(1)'', js (''O(n'' @ [CHR 0xB2] @ '')'')],
      correctAnswer = 2,
      explanation = js ''Insertion at the beginning of a linked list is O(1) because we only need to update pointers.''\<rparr>,
     \<lparr>question = js ''What is the space complexity of a balanced binary search tree with n nodes?'',
      options = [js ''O(1)'', js ''O(log n)'', js ''O(n)'', js (''O(n'' @ [CHR 0xB2] @ '')'')],
      correctAnswer = 2,
      explanation = js ''A balanced BST with n nodes requires O(n) space to store all nodes.''\<rparr>,
     \<lparr>question = js ''Which of the following is NOT a linear data structure?'',
      options = [js ''Array'', js ''Stack'', js ''Queue'', js ''Tree''],
      correctAnswer = 3,
      explanation = js ''Tree is a non-linear data structure, while Array, Stack, and Queue are linear.''\<rparr>,
     \<lparr>question = js ''What is the time complexity of searching in a hash table?'',
      options = [js ''O(n)'', js ''O(log n)'', js ''O(1) average case'', js (''O(n'' @ [CHR 0xB2] @ '')'')],
      correctAnswer = 2,
      explanation = js ''Hash table provides O(1) average case time complexity for search operations.''\<rparr>,
     \<lparr>question = js ''What is a binary tree?'',
      options = [js ''A tree with 2 elements'', js ''A tree where each node has at most 2 children'', js ''A tree with 2 levels'', js ''A sorted tree''],
      correctAnswer = 1,
      explanation = js ''A binary tree is a tree structure where each node has at most two children (left and right).''\<rparr>]"

definition dataStructures_hard :: "quiz_question list" where
  "dataStructures_hard =
    [\<lparr>question = js ''What is the time complexity of inserting an element in a balanced AVL tree?'',
      options = [js ''O(1)'', js ''O(log n)'', js ''O(n)'', js ''O(n log n)''],
      correctAnswer = 1,
      explanation = js ''AVL trees maintain balance, ensuring O(log n) insertion time complexity.''\<rparr>,
     \<lparr>question = js ''What is the difference between a heap and a binary search tree?'',
      options = [js ''No difference'', js ''Heap is for searching, BST is for sorting'', js ''Heap maintains heap property, BST maintains ordering property'', js ''Heap is faster''],
      correctAnswer = 2,
      explanation = js ''Heaps satisfy the heap property (parent-child ordering), while BSTs maintain left < parent < right ordering.''\<rparr>,
     \<lparr>question = js ''What is the time complexity of finding the k-th smallest element in a BST?'',
      options = [js ''O(1)'', js ''O(log n)'', js ''O(n)'', js ''O(k log n)''],
      correctAnswer = 2,
      explanation = js ''Finding k-th smallest requires traversal, giving O(n) worst-case time complexity.''\<rparr>,
     \<lparr>question = js ''What are the advantages of using a skip list?'',
      options = [js ''Simpler than BST'', js ''Probabilistic balancing with O(log n) operations'', js ''No memory overhead'', js ''Cache friendly''],
      correctAnswer = 1,
      explanation = js ''Skip lists provide probabilistic balancing and achieve O(log n) search time without complex rotations.''\<rparr>,
     \<lparr>question = js ''What is a self-balancing BST?'',
      options = [js ''A BST that sorts itself'', js ''A BST that maintains balance through rotations to ensure O(log n) operations'', js ''A BST with 2 children'', js ''A readonly BST''],
      correctAnswer = 1,
      explanation = js ''Self-balancing BSTs (like AVL, Red-Black) automatically rebalance to maintain O(log n) complexity.''\<rparr>]"

definition dataStructures :: bank_entry where
  "dataStructures = \<lparr>easy = dataStructures_easy, medium = dataStructures_medium, hard = dataStructures_hard\<rparr>"

definition algorithms_easy :: "quiz_question list" where
  "algorithms_easy =
    [\<lparr>question = js ''What is a sorting algorithm?'',
      options = [js ''A program'', js ''A method to arrange elements in order'', js ''A search function'', js ''A loop''],
      correctAnswer = 1,
      explanation = js ''A sorting algorithm is a step-by-step procedure to arrange elements in a specific order.''\<rparr>,
     \<lparr>question = js ''Which sorting algorithm compares adjacent elements?'',
      options = [js ''Quick Sort'', js ''Merge Sort'', js ''Bubble Sort'', js ''Heap Sort''],
      correctAnswer = 2,
      explanation = js ''Bubble sort compares adjacent elements and swaps them if they are in wrong order.''\<rparr>,
     \<lparr>question = js ''What is the worst-case time complexity of bubble sort?'',
      options = [js ''O(n)'', js ''O(n log n)'', js (''O(n'' @ [CHR 0xB2] @ '')''), js ''O(2^n)''],
      correctAnswer = 2,
      explanation = js (''Bubble sort has O(n'' @ [CHR 0xB2] @ '') worst-case complexity when the array is in reverse order.'')\<rparr>,
     \<lparr>question = js ''What is a search algorithm?'',
      options = [js ''A sorting method'', js ''A procedure to find an element in a collection'', js ''A loop'', js ''A condition''],
      correctAnswer = 1,
      explanation = js ''A search algorithm is used to locate a specific element within a data structure.''\<rparr>,
     \<lparr>question = js ''What is linear search?'',
      options = [js ''Search in a line'', js ''Searching each element sequentially'', js ''Dividing and searching'', js ''Random search''],
      correctAnswer = 1,
      explanation = js ''Linear search checks each element one by one until the target is found.''\<rparr>]"

definition algorithms_medium :: "quiz_question list" where
  "algorithms_medium =
    [\<lparr>question = js ''What is the time complexity of binary search?'',
      options = [js ''O(n)'', js ''O(log n)'', js (''O(n'' @ [CHR 0xB2] @ '')''), js ''O(2^n)''],
      correctAnswer = 1,
      explanation = js ''Binary search has O(log n) complexity as it divides the search space in half each time.''\<rparr>,
     \<lparr>question = js ''Which algorithm design paradigm does Merge Sort use?'',
      options = [js ''Greedy'', js ''Dynamic Programming'', js ''Divide and Conquer'', js ''Brute Force''],
      correctAnswer = 2,
      explanation = js ''Merge Sort uses Divide and Conquer by dividing array in half and merging sorted subarrays.''\<rparr>,
     \<lparr>question = js ''What is the best case time complexity of quick sort?'',
      options = [js ''O(n)'', js ''O(n log n)'', js (''O(n'' @ [CHR 0xB2] @ '')''), js ''O(log n)''],
      correctAnswer = 1,
      explanation = js ''Quick sort has O(n log n) best case when the pivot divides the array equally.''\<rparr>,
     \<lparr>question = js ''What is dynamic programming?'',
      options = [js ''Programming that changes'', js ''Solving problems by breaking into subproblems and storing results'', js ''Using loops'', js ''Random algorithm''],
      correctAnswer = 1,
      explanation = js ''Dynamic programming solves complex problems by breaking them into simpler subproblems and memoizing results.''\<rparr>,
     \<lparr>question = js ''What is the time complexity of merge sort?'',
      options = [js ''O(n)'', js ''O(n log n)'', js (''O(n'' @ [CHR 0xB2] @ '')''), js ''O(2^n)''],
      correctAnswer = 1,
      explanation = js ''Merge sort has O(n log n) time complexity in all cases (best, average, worst).''\<rparr>]"

definition algorithms_hard :: "quiz_question list" where
  "algorithms_hard =
    [\<lparr>question = js ''What is the time complexity of the best implementation of quick sort?'',
      options = [js ''O(n)'', js ''O(n log n)'', js (''O(n'' @ [CHR 0xB2] @ '')''), js ''O(log n)''],
      correctAnswer = 1,
      explanation = js ''With good pivot selection, quick sort achieves O(n log n) average case complexity.''\<rparr>,
     \<lparr>question = js ''What problem can be solved using the Floyd-Warshall algorithm?'',
      options = [js ''Sorting'', js ''All-pairs shortest path'', js ''Searching'', js ''Hashing''],
      correctAnswer = 1,
      explanation = js ''Floyd-Warshall finds shortest paths between all pairs of vertices in a graph.''\<rparr>,
     \<lparr>question = js ''What is memoization in dynamic programming?'',
      options = [js ''Writing notes'', js ''Storing results of expensive function calls'', js ''Sorting data'', js ''Searching''],
      correctAnswer = 1,
      explanation = js ''Memoization stores computed results to avoid redundant calculations, improving efficiency.''\<rparr>,
     \<lparr>question = js ''What is a greedy algorithm?'',
      options = [js ''An algorithm that sorts'', js ''An algorithm that makes locally optimal choices'', js ''An algorithm for searching'', js ''An algorithm for hashing''],
      correctAnswer = 1,
      explanation = js ''A greedy algorithm makes locally optimal choices at each step, hoping to find global optimum.''\<rparr>,
     \<lparr>question = js ''What is the longest common subsequence (LCS) problem?'',
      options = [js ''Finding longest word'', js ''Finding the longest sequence common to two sequences'', js ''Sorting sequences'', js ''Comparing numbers''],
      correctAnswer = 1,
      explanation = js ''LCS finds the longest subsequence present in both sequences in the same order.''\<rparr>]"

definition algorithms :: bank_entry where
  "algorithms = \<lparr>easy = algorithms_easy, medium = algorithms_medium, hard = algorithms_hard\<rparr>"

definition databaseManagement_easy :: "quiz_question list" where
  "databaseManagement_easy =
    [\<lparr>question = js ''What is a database?'',
      options = [js ''A file'', js ''An organized collection of structured data'', js ''A program'', js ''A server''],
      correctAnswer = 1,
      explanation = js ''A database is an organized collection of structured data stored and managed efficiently.''\<rparr>,
     \<lparr>question = js ''What does SQL stand for?'',
      options = [js ''Structured Question Language'', js ''Structured Query Language'', js ''Simple Query Logic'', js ''Sequential Query Language''],
      correctAnswer = 1,
      explanation = js ''SQL stands for Structured Query Language, used to query and manage databases.''\<rparr>,
     \<lparr>question = js ''What is a primary key?'',
      options = [js ''A password'', js ''A unique identifier for each record'', js ''A type of key'', js ''A foreign key''],
      correctAnswer = 1,
      explanation = js ''A primary key is a unique identifier that uniquely identifies each record in a table.''\<rparr>,
     \<lparr>question = js ''What is a table?'',
      options = [js ''Furniture'', js ''A collection of rows and columns'', js ''A file'', js ''A database''],
      correctAnswer = 1,
      explanation = js ''A table is a structured collection of data organized in rows (records) and columns (attributes).''\<rparr>,
     \<lparr>question = js ''What is a row in a table?'',
      options = [js ''A line'', js ''A single record'', js ''A column'', js ''A database''],
      correctAnswer = 1,
      explanation = js ''A row represents a single record in a table, containing values for each column.''\<rparr>]"

definition databaseManagement_medium :: "quiz_question list" where
  "databaseManagement_medium =
    [\<lparr>question = js ''What does ACID stand for in database transactions?'',
      options = [js ''Atomicity, Consistency, Isolation, Durability'', js ''Access, Control, Index, Data'', js ''Accuracy, Clarity, Index, Data'', js ''Atomicity, Control, Isolation, Durability''],
      correctAnswer = 0,
      explanation = js ''ACID properties ensure reliable database transactions and data integrity.''\<rparr>,
     \<lparr>question = js ''Which normal form eliminates partial dependencies?'',
      options = [js ''1NF'', js ''2NF'', js ''3NF'', js ''BCNF''],
      correctAnswer = 1,
      explanation = js ''2NF (Second Normal Form) eliminates partial dependencies from 1NF.''\<rparr>,
     \<lparr>question = js ''What is the purpose of an index in a database?'',
      options = [js ''Store data'', js ''Faster data retrieval'', js ''Ensure uniqueness'', js ''Backup data''],
      correctAnswer = 1,
      explanation = js ''Indexes speed up data retrieval operations by reducing the amount of data to scan.''\<rparr>,
     \<lparr>question = js ''What is a foreign key?'',
      options = [js ''Primary key in another table'', js ''A key that references primary key in another table'', js ''Duplicate of primary key'', js ''Encrypted key''],
      correctAnswer = 1,
      explanation = js ''A foreign key is an attribute that references the primary key of another table, maintaining referential integrity.''\<rparr>,
     \<lparr>question = js ''What is normalization?'',
      options = [js ''Making data normal'', js ''Process of organizing data to reduce redundancy'', js ''Backup process'', js ''Sorting data''],
      correctAnswer = 1,
      explanation = js ''Normalization is the process of organizing database tables to minimize redundancy and improve data integrity.''\<rparr>]"

definition databaseManagement_hard :: "quiz_question list" where
  "databaseManagement_hard =
    [\<lparr>question = js ''What is Boyce-Codd Normal Form (BCNF)?'',
      options = [js ''A relaxation of 3NF'', js ''A stricter form of 3NF for every determinant to be a candidate key'', js ''A form of denormalization'', js ''A backup method''],
      correctAnswer = 1,
      explanation = js ''BCNF is a stricter normal form where every determinant must be a candidate key.''\<rparr>,
     \<lparr>question = js ''What is a transaction?'',
      options = [js ''A transfer'', js ''A sequence of database operations treated as a single unit'', js ''A query'', js ''An index''],
      correctAnswer = 1,
      explanation = js ''A transaction is a sequence of operations that must be completed atomically (all or nothing).''\<rparr>,
     \<lparr>question = js ''What is query optimization?'',
      options = [js ''Making queries faster'', js ''Process of finding the most efficient way to execute a query'', js ''Backup optimization'', js ''Data compression''],
      correctAnswer = 1,
      explanation = js ''Query optimization involves selecting the most efficient execution plan for database queries.''\<rparr>,
     \<lparr>question = js ''What is a stored procedure?'',
      options = [js ''A saved query'', js ''Precompiled code stored in the database for reuse'', js ''A backup'', js ''An index''],
      correctAnswer = 1,
      explanation = js ''A stored procedure is precompiled database code that performs specific operations and can be called multiple times.''\<rparr>,
     \<lparr>question = js ''What is database replication?'',
      options = [js ''Copying data'', js ''Maintaining copies of database across multiple systems for redundancy and availability'', js ''Backup'', js ''Compression''],
      correctAnswer = 1,
      explanation = js ''Database replication creates copies of data across multiple systems to ensure redundancy and high availability.''\<rparr>]"

definition databaseManagement :: bank_entry where
  "databaseManagement = \<lparr>easy = databaseManagement_easy, medium = databaseManagement_medium, hard = databaseManagement_hard\<rparr>"

definition operatingSystems_easy :: "quiz_question list" where
  "operatingSystems_easy =
    [\<lparr>question = js ''What is an operating system?'',
      options = [js ''Software'', js ''System software that manages hardware and provides services to applications'', js ''A program'', js ''A hardware''],
      correctAnswer = 1,
      explanation = js ''An OS is system software that manages computer hardware and provides services to applications.''\<rparr>,
     \<lparr>question = js ''What is a process?'',
      options = [js ''A program'', js ''A running instance of a program with its own memory and resources'', js ''A file'', js ''A thread''],
      correctAnswer = 1,
      explanation = js ''A process is an executing instance of a program with its own memory space and resources.''\<rparr>,
     \<lparr>question = js ''What is a thread?'',
      options = [js ''A line'', js ''A lightweight unit of execution within a process'', js ''A process'', js ''A program''],
      correctAnswer = 1,
      explanation = js ''A thread is a lightweight unit of execution that shares memory with other threads in the same process.''\<rparr>,
     \<lparr>question = js ''What is CPU scheduling?'',
      options = [js ''Fixing CPU'', js ''Allocating CPU time to processes'', js ''Organizing processes'', js ''Sorting processes''],
      correctAnswer = 1,
      explanation = js ''CPU scheduling determines which process gets to use the CPU at any given time.''\<rparr>,
     \<lparr>question = js ''What is virtual memory?'',
      options = [js ''RAM'', js ''Extended memory using disk storage'', js ''Cache memory'', js ''ROM''],
      correctAnswer = 1,
      explanation = js ''Virtual memory uses disk storage to extend available memory, allowing programs larger than physical RAM.''\<rparr>]"

definition operatingSystems_medium :: "quiz_question list" where
  "operatingSystems_medium =
    [\<lparr>question = js ''Which scheduling algorithm is used in most modern OS?'',
      options = [js ''FCFS'', js ''SJF'', js ''Round Robin'', js ''Priority Scheduling''],
      correctAnswer = 2,
      explanation = js ''Round Robin is commonly used as it provides fairness and prevents starvation.''\<rparr>,
     \<lparr>question = js ''What is a deadlock in operating systems?'',
      options = [js ''System crash'', js ''Situation where two or more processes wait indefinitely for each other'', js ''Memory full'', js ''CPU overload''],
      correctAnswer = 1,
      explanation = js ''Deadlock occurs when processes hold resources and wait for resources held by others, causing indefinite wait.''\<rparr>,
     \<lparr>question = js ''What is the difference between a process and a thread?'',
      options = [js ''No difference'', js ''Process has independent memory, thread shares memory with process'', js ''Thread is faster'', js ''Process is faster''],
      correctAnswer = 1,
      explanation = js ''Processes have independent memory spaces, while threads within a process share the same memory space.''\<rparr>,
     \<lparr>question = js ''What is synchronization?'',
      options = [js ''Organizing files'', js ''Coordinating access to shared resources'', js ''Backing up data'', js ''Sorting''],
      correctAnswer = 1,
      explanation = js ''Synchronization ensures proper coordination of multiple processes accessing shared resources.''\<rparr>,
     \<lparr>question = js ''What is a semaphore?'',
      options = [js ''A signal'', js ''A synchronization primitive used to control access to shared resources'', js ''A thread'', js ''A process''],
      correctAnswer = 1,
      explanation = js ''A semaphore is a synchronization primitive that uses counters to manage access to shared resources.''\<rparr>]"

definition operatingSystems_hard :: "quiz_question list" where
  "operatingSystems_hard =
    [\<lparr>question = js (''What is the Banker'' @ [CHR 0x27] @ ''s algorithm used for?''),
      options = [js ''Banking'', js ''Deadlock avoidance'', js ''Scheduling'', js ''Memory management''],
      correctAnswer = 1,
      explanation = js (''The Banker'' @ [CHR 0x27] @ ''s algorithm is a deadlock avoidance algorithm that checks if resource allocation is safe.'')\<rparr>,
     \<lparr>question = js ''What is cache coherence?'',
      options = [js ''Logical organization'', js ''Ensuring consistency of data across multiple caches in multiprocessor systems'', js ''Memory management'', js ''Disk caching''],
      correctAnswer = 1,
      explanation = js ''Cache coherence maintains consistency when multiple processors have copies of the same data.''\<rparr>,
     \<lparr>question = js ''What is page replacement?'',
      options = [js ''Replacing pages'', js ''Algorithm to decide which page to evict from memory when new page is needed'', js ''Sorting'', js ''Compression''],
      correctAnswer = 1,
      explanation = js ''Page replacement algorithms decide which page in memory should be replaced when a new page is needed.''\<rparr>,
     \<lparr>question = js ''What is context switching?'',
      options = [js ''Changing context'', js ''Process of saving and restoring state to switch between processes'', js ''Swapping memory'', js ''Scheduling''],
      correctAnswer = 1,
      explanation = js ''Context switching saves one process state and loads another, allowing CPU to execute different processes.''\<rparr>,
     \<lparr>question = js ''What is a race condition?'',
      options = [js ''A competition'', js ''Situation where multiple threads access shared data and result depends on timing'', js ''A deadlock'', js ''A starvation''],
      correctAnswer = 1,
      explanation = js ''A race condition occurs when multiple threads access shared data and outcome depends on timing of execution.''\<rparr>]"

definition operatingSystems :: bank_entry where
  "operatingSystems = \<lparr>easy = operatingSystems_easy, medium = operatingSystems_medium, hard = operatingSystems_hard\<rparr>"

definition computerNetworks_easy :: "quiz_question list" where
  "computerNetworks_easy =
    [\<lparr>question = js ''What is a computer network?'',
      options = [js ''A computer'', js ''Connected computers sharing data and resources'', js ''A wire'', js ''Software''],
      correctAnswer = 1,
      explanation = js ''A computer network is a system of connected computers that can share data and resources.''\<rparr>,
     \<lparr>question = js ''What is the Internet?'',
      options = [js ''A computer'', js ''Global system of interconnected networks'', js ''A wire'', js ''A protocol''],
      correctAnswer = 1,
      explanation = js ''The Internet is a global system of interconnected networks using standardized protocols.''\<rparr>,
     \<lparr>question = js ''What is an IP address?'',
      options = [js ''A password'', js ''A unique numerical label identifying devices on network'', js ''A domain name'', js ''A URL''],
      correctAnswer = 1,
      explanation = js ''An IP address is a unique numerical identifier assigned to each device on a network.''\<rparr>,
     \<lparr>question = js ''What is a protocol?'',
      options = [js ''A procedure'', js ''A set of rules for communication between devices'', js ''A software'', js ''A hardware''],
      correctAnswer = 1,
      explanation = js ''A protocol is a set of rules that defines how devices communicate over a network.''\<rparr>,
     \<lparr>question = js ''What is HTTP?'',
      options = [js ''A server'', js ''Hypertext Transfer Protocol for web communication'', js ''A database'', js ''A programming language''],
      correctAnswer = 1,
      explanation = js ''HTTP is the Hypertext Transfer Protocol used for transferring web pages over the Internet.''\<rparr>]"

definition computerNetworks_medium :: "quiz_question list" where
  "computerNetworks_medium =
    [\<lparr>question = js ''Which layer of OSI model handles routing?'',
      options = [js ''Data Link Layer'', js ''Network Layer'', js ''Transport Layer'', js ''Application Layer''],
      correctAnswer = 1,
      explanation = js ''The Network Layer (Layer 3) is responsible for routing and logical addressing.''\<rparr>,
     \<lparr>question = js ''What is the purpose of TCP?'',
      options = [js ''Unreliable data transfer'', js ''Reliable, connection-oriented data transfer'', js ''Fast transfer'', js ''Broadcast''],
      correctAnswer = 1,
      explanation = js ''TCP provides reliable, connection-oriented delivery of data with error checking.''\<rparr>,
     \<lparr>question = js ''What is DNS?'',
      options = [js ''A server'', js ''Domain Name System that translates domain names to IP addresses'', js ''A protocol'', js ''An IP address''],
      correctAnswer = 1,
      explanation = js ''DNS (Domain Name System) translates human-readable domain names into IP addresses.''\<rparr>,
     \<lparr>question = js ''Which protocol resolves IP addresses to MAC addresses?'',
      options = [js ''DHCP'', js ''DNS'', js ''ARP'', js ''IGMP''],
      correctAnswer = 2,
      explanation = js ''ARP (Address Resolution Protocol) maps IP addresses to MAC addresses.''\<rparr>,
     \<lparr>question = js ''What is a firewall?'',
      options = [js ''A wall'', js ''Security system monitoring and controlling network traffic'', js ''A router'', js ''A modem''],
      correctAnswer = 1,
      explanation = js ''A firewall is a security system that monitors and controls incoming and outgoing network traffic.''\<rparr>]"

definition computerNetworks_hard :: "quiz_question list" where
  "computerNetworks_hard =
    [\<lparr>question = js ''What is the three-way handshake in TCP?'',
      options = [js ''Three connections'', js ''SYN, SYN-ACK, ACK sequence to establish connection'', js ''Three packets'', js ''Three protocols''],
      correctAnswer = 1,
      explanation = js ''Three-way handshake (SYN, SYN-ACK, ACK) establishes a TCP connection between client and server.''\<rparr>,
     \<lparr>question = js ''What is congestion control in TCP?'',
      options = [js ''Controlling traffic'', js ''Mechanism to avoid network congestion by adjusting sending rate'', js ''Router function'', js ''Firewall function''],
      correctAnswer = 1,
      explanation = js ''Congestion control adjusts TCP sending rate to prevent network congestion and packet loss.''\<rparr>,
     \<lparr>question = js ''What is a subnet?'',
      options = [js ''A network'', js ''A subdivision of IP network with shared network address'', js ''A protocol'', js ''A server''],
      correctAnswer = 1,
      explanation = js ''A subnet is a logical subdivision of an IP network, allowing better organization and security.''\<rparr>,
     \<lparr>question = js ''What is QoS in networking?'',
      options = [js ''Quality control'', js ''Quality of Service - ensuring performance levels for network traffic'', js ''A router'', js ''A protocol''],
      correctAnswer = 1,
      explanation = js ''QoS (Quality of Service) ensures acceptable performance levels for critical network traffic.''\<rparr>,
     \<lparr>question = js ''What is NAT?'',
      options = [js ''A protocol'', js ''Network Address Translation - translating between private and public IP addresses'', js ''A server'', js ''A firewall''],
      correctAnswer = 1,
      explanation = js ''NAT (Network Address Translation) allows private IP addresses to communicate with public networks.''\<rparr>]"

definition computerNetworks :: bank_entry where
  "computerNetworks = \<lparr>easy = computerNetworks_easy, medium = computerNetworks_medium, hard = computerNetworks_hard\<rparr>"

definition webDevelopment_easy :: "quiz_question list" where
  "webDevelopment_easy =
    [\<lparr>question = js ''What does HTML stand for?'',
      options = [js ''Hypertext Markup Language'', js ''High Tech Modern Language'', js ''Home Tool Markup Language'', js ''Hyperlinks and Text Markup Language''],
      correctAnswer = 0,
      explanation = js ''HTML stands for Hypertext Markup Language, used to structure web content.''\<rparr>,
     \<lparr>question = js ''What does CSS stand for?'',
      options = [js ''Computer Style Sheets'', js ''Cascading Style Sheets'', js ''Creative Style System'', js ''Central Style Script''],
      correctAnswer = 1,
      explanation = js ''CSS stands for Cascading Style Sheets, used for styling web pages.''\<rparr>,
     \<lparr>question = js ''What is JavaScript?'',
      options = [js ''A markup language'', js ''A programming language for web interactivity'', js ''A server'', js ''A database''],
      correctAnswer = 1,
      explanation = js ''JavaScript is a programming language that adds interactivity and dynamic behavior to web pages.''\<rparr>,
     \<lparr>question = js ''What is a web browser?'',
      options = [js ''A search engine'', js ''Software that displays web pages from the Internet'', js ''A server'', js ''A database''],
      correctAnswer = 1,
      explanation = js ''A web browser is software that requests, retrieves, and displays web pages from servers.''\<rparr>,
     \<lparr>question = js ''What is a tag in HTML?'',
      options = [js ''A label'', js ''Markup element enclosed in angle brackets'', js ''An attribute'', js ''A class''],
      correctAnswer = 1,
      explanation = js ''An HTML tag is a markup element enclosed in < > that defines content and structure.''\<rparr>]"

definition webDevelopment_medium :: "quiz_question list" where
  "webDevelopment_medium =
    [\<lparr>question = js ''Which is not a valid HTML semantic tag?'',
      options = [js ''<header>'', js ''<article>'', js ''<content>'', js ''<section>''],
      correctAnswer = 2,
      explanation = js ''<content> is not a valid semantic HTML tag. Use <article>, <section>, <header>, <footer>, etc.''\<rparr>,
     \<lparr>question = js ''What is the purpose of CSS?'',
      options = [js ''Structure content'', js ''Style and layout'', js ''Server-side logic'', js ''Database management''],
      correctAnswer = 1,
      explanation = js ''CSS (Cascading Style Sheets) is used for styling and layout of web pages.''\<rparr>,
     \<lparr>question = js ''What is an API in web development?'',
      options = [js ''A design pattern'', js ''Interface for applications to communicate'', js ''Database query'', js ''CSS framework''],
      correctAnswer = 1,
      explanation = js ''API (Application Programming Interface) allows applications to request and exchange data.''\<rparr>,
     \<lparr>question = js ''Which HTTP method is used to retrieve data?'',
      options = [js ''POST'', js ''GET'', js ''DELETE'', js ''PUT''],
      correctAnswer = 1,
      explanation = js ''GET method is used to retrieve data from a server without modifying it.''\<rparr>,
     \<lparr>question = js ''What is a responsive design?'',
      options = [js ''Fast design'', js ''Web design that adapts to different screen sizes'', js ''Colorful design'', js ''Interactive design''],
      correctAnswer = 1,
      explanation = js ''Responsive design ensures web pages look and function well on all devices and screen sizes.''\<rparr>]"

definition webDevelopment_hard :: "quiz_question list" where
  "webDevelopment_hard =
    [\<lparr>question = js ''What is a progressive web app (PWA)?'',
      options = [js ''A slow app'', js ''Web app with features like offline support and installability'', js ''A heavy app'', js ''A simple website''],
      correctAnswer = 1,
      explanation = js ''A PWA is a web application with features like offline functionality, push notifications, and installability.''\<rparr>,
     \<lparr>question = js ''What is event delegation in JavaScript?'',
      options = [js ''Assigning tasks'', js ''Technique of handling events on parent instead of target elements'', js ''Creating events'', js ''Managing events''],
      correctAnswer = 1,
      explanation = js ''Event delegation attaches listeners to parent elements to handle events from child elements efficiently.''\<rparr>,
     \<lparr>question = js ''What is CORS?'',
      options = [js ''A framework'', js ''Cross-Origin Resource Sharing - mechanism for accessing resources from different origins'', js ''A library'', js ''A tool''],
      correctAnswer = 1,
      explanation = js ''CORS (Cross-Origin Resource Sharing) allows restricted resources on different origins to be accessed.''\<rparr>,
     \<lparr>question = js ''What is a web worker?'',
      options = [js ''A person'', js ''JavaScript running in background thread without blocking main thread'', js ''A server'', js ''A database''],
      correctAnswer = 1,
      explanation = js ''Web workers allow running JavaScript in background threads for heavy computations without blocking the UI.''\<rparr>,
     \<lparr>question = js ''What is webpack?'',
      options = [js ''A framework'', js ''Module bundler for packaging JavaScript and other assets'', js ''A library'', js ''A server''],
      correctAnswer = 1,
      explanation = js ''Webpack is a module bundler that bundles JavaScript, CSS, and other assets for production.''\<rparr>]"

definition webDevelopment :: bank_entry where
  "webDevelopment = \<lparr>easy = webDevelopment_easy, medium = webDevelopment_medium, hard = webDevelopment_hard\<rparr>"

definition cloudComputing_easy :: "quiz_question list" where
  "cloudComputing_easy =
    [\<lparr>question = js ''What is cloud computing?'',
      options = [js ''Computing in clouds'', js ''Computing services delivered over the Internet'', js ''A server'', js ''A program''],
      correctAnswer = 1,
      explanation = js ''Cloud computing provides computing services (servers, storage, databases) over the Internet.''\<rparr>,
     \<lparr>question = js ''What does IaaS stand for?'',
      options = [js ''Infrastructure as a Service'', js ''Integration as a Service'', js ''Information as a Service'', js ''Internet as a Service''],
      correctAnswer = 0,
      explanation = js ''IaaS provides virtualized computing resources over the internet (e.g., AWS, Azure VMs).''\<rparr>,
     \<lparr>question = js ''What does PaaS stand for?'',
      options = [js ''Platform as a Service'', js ''Process as a Service'', js ''Program as a Service'', js ''Protocol as a Service''],
      correctAnswer = 0,
      explanation = js ''PaaS provides platforms for building and deploying applications over the Internet.''\<rparr>,
     \<lparr>question = js ''What does SaaS stand for?'',
      options = [js ''Software as a Service'', js ''Server as a Service'', js ''Storage as a Service'', js ''Security as a Service''],
      correctAnswer = 0,
      explanation = js ''SaaS delivers software applications over the Internet (e.g., Gmail, Office 365).''\<rparr>,
     \<lparr>question = js ''What is a cloud provider?'',
      options = [js ''A company'', js ''Company that offers cloud computing services'', js ''An Internet provider'', js ''A server''],
      correctAnswer = 1,
      explanation = js ''A cloud provider is a company offering cloud computing services and infrastructure.''\<rparr>]"

definition cloudComputing_medium :: "quiz_question list" where
  "cloudComputing_medium =
    [\<lparr>question = js ''Which cloud service model provides the most control?'',
      options = [js ''SaaS'', js ''PaaS'', js ''IaaS'', js ''All are same''],
      correctAnswer = 2,
      explanation = js ''IaaS provides the most control as users manage OS, middleware, and applications.''\<rparr>,
     \<lparr>question = js ''What is containerization?'',
      options = [js ''Storing data in containers'', js ''Packaging applications with dependencies'', js ''Cloud storage'', js ''Network isolation''],
      correctAnswer = 1,
      explanation = js ''Containerization packages applications with their dependencies for consistent deployment.''\<rparr>,
     \<lparr>question = js ''What is auto-scaling in cloud?'',
      options = [js ''Manual scaling'', js ''Automatically adjusting resources based on demand'', js ''Slow scaling'', js ''Scaling code''],
      correctAnswer = 1,
      explanation = js ''Auto-scaling automatically adjusts computing resources to meet demand changes.''\<rparr>,
     \<lparr>question = js ''What is load balancing?'',
      options = [js ''Balancing loads'', js ''Distributing traffic across multiple servers'', js ''Organizing files'', js ''Sorting servers''],
      correctAnswer = 1,
      explanation = js ''Load balancing distributes network traffic across multiple servers for optimal performance.''\<rparr>,
     \<lparr>question = js ''What is multi-tenancy?'',
      options = [js ''Multiple clouds'', js ''Multiple users sharing same resources'', js ''Multiple databases'', js ''Multiple servers''],
      correctAnswer = 1,
      explanation = js ''Multi-tenancy allows multiple customers to share the same cloud resources safely.''\<rparr>]"

definition cloudComputing_hard :: "quiz_question list" where
  "cloudComputing_hard =
    [\<lparr>question = js ''What is serverless computing?'',
      options = [js ''No server needed'', js ''Cloud computing without managing infrastructure'', js ''A server'', js ''No code needed''],
      correctAnswer = 1,
      explanation = js ''Serverless computing allows running code without provisioning or managing servers.''\<rparr>,
     \<lparr>question = js ''What is edge computing?'',
      options = [js ''Computing at edges'', js ''Processing data closer to source for reduced latency'', js ''Cloud computing'', js ''Central computing''],
      correctAnswer = 1,
      explanation = js ''Edge computing processes data near the source (edge) rather than centralized data centers.''\<rparr>,
     \<lparr>question = js ''What is hybrid cloud?'',
      options = [js ''Cloud only'', js ''Mix of public and private cloud resources'', js ''Private cloud'', js ''On-premise only''],
      correctAnswer = 1,
      explanation = js ''Hybrid cloud combines public cloud services with private on-premise infrastructure.''\<rparr>,
     \<lparr>question = js ''What is cloud federation?'',
      options = [js ''Multiple clouds'', js ''Interconnecting multiple cloud providers for unified service'', js ''Single cloud'', js ''Distributed cloud''],
      correctAnswer = 1,
      explanation = js ''Cloud federation connects multiple cloud providers to create unified, integrated service.''\<rparr>,
     \<lparr>question = js ''What is infrastructure as code (IaC)?'',
      options = [js ''Coding infrastructure'', js ''Managing infrastructure using code and version control'', js ''Cloud API'', js ''Manual configuration''],
      correctAnswer = 1,
      explanation = js ''IaC manages infrastructure by writing code instead of manual configuration (e.g., Terraform).''\<rparr>]"

definition cloudComputing :: bank_entry where
  "cloudComputing = \<lparr>easy = cloudComputing_easy, medium = cloudComputing_medium, hard = cloudComputing_hard\<rparr>"

definition devOps_easy :: "quiz_question list" where
  "devOps_easy =
    [\<lparr>question = js ''What is DevOps?'',
      options = [js ''Development operation'', js ''Combining development and operations for continuous improvement'', js ''A tool'', js ''A language''],
      correctAnswer = 1,
      explanation = js ''DevOps is a practice combining development and operations for faster, reliable software delivery.''\<rparr>,
     \<lparr>question = js ''What does CI stand for?'',
      options = [js ''Continuous Integration'', js ''Code Integration'', js ''Central Interface'', js ''Computer Integration''],
      correctAnswer = 0,
      explanation = js ''CI (Continuous Integration) involves automatically integrating and testing code changes.''\<rparr>,
     \<lparr>question = js ''What does CD stand for?'',
      options = [js ''Continuous Deployment'', js ''Code Deployment'', js ''Central Data'', js ''Computer Deployment''],
      correctAnswer = 0,
      explanation = js ''CD (Continuous Deployment) automatically deploys tested code to production.''\<rparr>,
     \<lparr>question = js ''What is Docker?'',
      options = [js ''Documentation'', js ''Platform for containerizing applications'', js ''Database'', js ''Version control''],
      correctAnswer = 1,
      explanation = js ''Docker is a containerization platform that packages applications with dependencies.''\<rparr>,
     \<lparr>question = js ''What is a container?'',
      options = [js ''A box'', js ''Lightweight package containing application and dependencies'', js ''A VM'', js ''A server''],
      correctAnswer = 1,
      explanation = js ''A container is a lightweight, standalone package that includes application and all dependencies.''\<rparr>]"

definition devOps_medium :: "quiz_question list" where
  "devOps_medium =
    [\<lparr>question = js ''What does CI/CD stand for?'',
      options = [js ''Continuous Integration/Continuous Deployment'', js ''Code Integration/Code Deployment'', js ''Central Interface/Central Data'', js ''Continuous Interface/Continuous Data''],
      correctAnswer = 0,
      explanation = js ''CI/CD automates integration, testing, and deployment of code changes.''\<rparr>,
     \<lparr>question = js ''What is Kubernetes?'',
      options = [js ''Container registry'', js ''Container orchestration platform'', js ''Monitoring tool'', js ''CI/CD platform''],
      correctAnswer = 1,
      explanation = js ''Kubernetes automates deployment, scaling, and management of containerized applications.''\<rparr>,
     \<lparr>question = js ''What is infrastructure as code (IaC)?'',
      options = [js ''Coding standards'', js ''Managing infrastructure using code'', js ''Cloud API'', js ''Database scripts''],
      correctAnswer = 1,
      explanation = js ''IaC manages infrastructure through code (e.g., Terraform, CloudFormation) instead of manual processes.''\<rparr>,
     \<lparr>question = js ''Which is a configuration management tool?'',
      options = [js ''Docker'', js ''Kubernetes'', js ''Ansible'', js ''Git''],
      correctAnswer = 2,
      explanation = js ''Ansible is an IaC and configuration management tool for automating infrastructure tasks.''\<rparr>,
     \<lparr>question = js ''What is monitoring in DevOps?'',
      options = [js ''Watching'', js ''Continuously observing system health and performance'', js ''Logging'', js ''Testing''],
      correctAnswer = 1,
      explanation = js ''Monitoring tracks system performance, availability, and alerts to issues in real-time.''\<rparr>]"

definition devOps_hard :: "quiz_question list" where
  "devOps_hard =
    [\<lparr>question = js ''What is blue-green deployment?'',
      options = [js ''Color deployment'', js ''Running two identical environments for zero-downtime deployment'', js ''Gradual deployment'', js ''Rollback mechanism''],
      correctAnswer = 1,
      explanation = js ''Blue-green deployment uses two identical environments to switch between versions with zero downtime.''\<rparr>,
     \<lparr>question = js ''What is canary deployment?'',
      options = [js ''Bird deployment'', js ''Gradual rollout to small user percentage before full deployment'', js ''Random deployment'', js ''Instant deployment''],
      correctAnswer = 1,
      explanation = js ''Canary deployment gradually rolls out changes to a small user subset to detect issues early.''\<rparr>,
     \<lparr>question = js ''What is a microservice architecture?'',
      options = [js ''Small services'', js ''Building applications as loosely coupled, independently deployable services'', js ''One big service'', js ''Monolithic''],
      correctAnswer = 1,
      explanation = js ''Microservices break applications into small, independent services that communicate via APIs.''\<rparr>,
     \<lparr>question = js ''What is service mesh?'',
      options = [js ''Network of services'', js ''Infrastructure for managing service-to-service communication'', js ''API gateway'', js ''Load balancer''],
      correctAnswer = 1,
      explanation = js ''Service mesh manages inter-service communication with features like load balancing and security.''\<rparr>,
     \<lparr>question = js ''What is GitOps?'',
      options = [js ''Git operations'', js ''Using Git as single source of truth for infrastructure and deployment'', js ''Version control'', js ''Git strategy''],
      correctAnswer = 1,
      explanation = js ''GitOps treats infrastructure as code in Git, automating deployment through Git workflows.''\<rparr>]"

definition devOps :: bank_entry where
  "devOps = \<lparr>easy = devOps_easy, medium = devOps_medium, hard = devOps_hard\<rparr>"

definition mockQuestions :: "(jsstring \<times> bank_entry) list" where
  "mockQuestions =
    [(js ''Data Structures'', dataStructures),
     (js ''Algorithms'', algorithms),
     (js ''Database Management'', databaseManagement),
     (js ''Operating Systems'', operatingSystems),
     (js ''Computer Networks'', computerNetworks),
     (js ''Web Development'', webDevelopment),
     (js ''Cloud Computing'', cloudComputing),
     (js ''DevOps'', devOps)]"

text \<open>
  \<open>generateMockQuestions\<close> (lines 162 to 954). \<open>selectedQuestions\<close> is the value of its
  constant \<open>questions\<close> (line 950), the chain
  \<open>mockQuestions[subject]?.[difficulty] || mockQuestions[subject]?.easy ||
  mockQuestions['Data Structures'].easy\<close>. An array is truthy, so the first
  alternative is taken for every subject of the bank; the members of
  \<open>Object.prototype\<close> have no property named after a difficulty, so for them and for
  \<open>undefined\<close> the first two alternatives are \<open>undefined\<close>.
\<close>

definition selectedQuestions :: "jsstring \<Rightarrow> difficulty \<Rightarrow> quiz_question list" where
  "selectedQuestions subject difficulty =
     (case member mockQuestions subject of
        Own e \<Rightarrow> byDifficulty difficulty e
      | Inherited \<Rightarrow> easy dataStructures
      | Undefined \<Rightarrow> easy dataStructures)"

definition generateMockQuestions ::
    "(nat \<Rightarrow> dyadic) \<Rightarrow> jsstring \<Rightarrow> difficulty \<Rightarrow> quiz_question list" where
  "generateMockQuestions random subject difficulty =
     take 5 (shuffleArray random (selectedQuestions subject difficulty))"

subsection \<open>The bank with one list for each subject (lines 1108 to 1365)\<close>

definition dataStructures2 :: "quiz_question list" where
  "dataStructures2 =
    [\<lparr>question = js ''What is the time complexity of inserting an element at the beginning of a linked list?'',
      options = [js ''O(n)'', js ''O(log n)'', js ''O(1)'', js (''O(n'' @ [CHR 0xB2] @ '')'')],
      correctAnswer = 2,
      explanation = js ''Insertion at the beginning of a linked list is O(1) because we only need to update pointers.''\<rparr>,
     \<lparr>question = js ''Which data structure uses LIFO (Last In First Out) principle?'',
      options = [js ''Queue'', js ''Stack'', js ''Tree'', js ''Graph''],
      correctAnswer = 1,
      explanation = js ''Stack follows LIFO principle where the last element inserted is removed first.''\<rparr>,
     \<lparr>question = js ''What is the space complexity of a balanced binary search tree with n nodes?'',
      options = [js ''O(1)'', js ''O(log n)'', js ''O(n)'', js (''O(n'' @ [CHR 0xB2] @ '')'')],
      correctAnswer = 2,
      explanation = js ''A balanced BST with n nodes requires O(n) space to store all nodes.''\<rparr>,
     \<lparr>question = js ''Which of the following is NOT a linear data structure?'',
      options = [js ''Array'', js ''Stack'', js ''Queue'', js ''Tree''],
      correctAnswer = 3,
      explanation = js ''Tree is a non-linear data structure, while Array, Stack, and Queue are linear.''\<rparr>,
     \<lparr>question = js ''What is the best case time complexity of bubble sort?'',
      options = [js ''O(n)'', js ''O(n log n)'', js (''O(n'' @ [CHR 0xB2] @ '')''), js ''O(2^n)''],
      correctAnswer = 0,
      explanation = js ''Bubble sort has O(n) best case when the array is already sorted.''\<rparr>]"

definition algorithms2 :: "quiz_question list" where
  "algorithms2 =
    [\<lparr>question = js ''What is the time complexity of binary search?'',
      options = [js ''O(n)'', js ''O(log n)'', js (''O(n'' @ [CHR 0xB2] @ '')''), js ''O(2^n)''],
      correctAnswer = 1,
      explanation = js ''Binary search has O(log n) complexity as it divides the search space in half each time.''\<rparr>,
     \<lparr>question = js ''Which algorithm design paradigm does Merge Sort use?'',
      options = [js ''Greedy'', js ''Dynamic Programming'', js ''Divide and Conquer'', js ''Brute Force''],
      correctAnswer = 2,
      explanation = js ''Merge Sort uses Divide and Conquer by dividing array in half and merging sorted subarrays.''\<rparr>,
     \<lparr>question = js ''What is the space complexity of quicksort in-place?'',
      options = [js ''O(1)'', js ''O(log n)'', js ''O(n)'', js (''O(n'' @ [CHR 0xB2] @ '')'')],
      correctAnswer = 1,
      explanation = js ''In-place quicksort has O(log n) space complexity due to recursive call stack.''\<rparr>,
     \<lparr>question = js ''Which of the following has the worst time complexity?'',
      options = [js ''Merge Sort'', js ''Quick Sort'', js ''Bubble Sort'', js ''Heap Sort''],
      correctAnswer = 2,
      explanation = js (''Bubble Sort has O(n'' @ [CHR 0xB2] @ '') worst-case complexity, while others have O(n log n).'')\<rparr>,
     \<lparr>question = js ''Dynamic Programming is useful for problems with which property?'',
      options = [js ''No overlapping subproblems'', js ''Optimal substructure'', js ''Random nature'', js ''Single solution''],
      correctAnswer = 1,
      explanation = js ''DP is useful for problems with optimal substructure where optimal solution uses optimal solutions of subproblems.''\<rparr>]"

definition databaseManagement2 :: "quiz_question list" where
  "databaseManagement2 =
    [\<lparr>question = js ''What does ACID stand for in database transactions?'',
      options = [js ''Atomicity, Consistency, Isolation, Durability'', js ''Access, Control, Index, Data'', js ''Accuracy, Clarity, Index, Data'', js ''Atomicity, Control, Isolation, Durability''],
      correctAnswer = 0,
      explanation = js ''ACID properties ensure reliable database transactions and data integrity.''\<rparr>,
     \<lparr>question = js ''Which normal form eliminates partial dependencies?'',
      options = [js ''1NF'', js ''2NF'', js ''3NF'', js ''BCNF''],
      correctAnswer = 1,
      explanation = js ''2NF (Second Normal Form) eliminates partial dependencies from 1NF.''\<rparr>,
     \<lparr>question = js ''What is the purpose of an index in a database?'',
      options = [js ''Store data'', js ''Faster data retrieval'', js ''Ensure uniqueness'', js ''Backup data''],
      correctAnswer = 1,
      explanation = js ''Indexes speed up data retrieval operations by reducing the amount of data to scan.''\<rparr>,
     \<lparr>question = js ''Which SQL command is used to retrieve data?'',
      options = [js ''INSERT'', js ''DELETE'', js ''SELECT'', js ''UPDATE''],
      correctAnswer = 2,
      explanation = js ''SELECT command is used to retrieve data from database tables.''\<rparr>,
     \<lparr>question = js ''What is a foreign key?'',
      options = [js ''Primary key in another table'', js ''A key that references primary key in another table'', js ''Duplicate of primary key'', js ''Encrypted key''],
      correctAnswer = 1,
      explanation = js ''A foreign key is an attribute that references the primary key of another table, maintaining referential integrity.''\<rparr>]"

definition operatingSystems2 :: "quiz_question list" where
  "operatingSystems2 =
    [\<lparr>question = js ''What is a process in an operating system?'',
      options = [js ''A program'', js ''A running instance of a program'', js ''A system call'', js ''A thread''],
      correctAnswer = 1,
      explanation = js ''A process is an executing instance of a program with its own memory space and resources.''\<rparr>,
     \<lparr>question = js ''Which scheduling algorithm is used in most modern OS?'',
      options = [js ''FCFS'', js ''SJF'', js ''Round Robin'', js ''Priority Scheduling''],
      correctAnswer = 2,
      explanation = js ''Round Robin is commonly used as it provides fairness and prevents starvation.''\<rparr>,
     \<lparr>question = js ''What is a deadlock in operating systems?'',
      options = [js ''System crash'', js ''Situation where two or more processes wait indefinitely for each other'', js ''Memory full'', js ''CPU overload''],
      correctAnswer = 1,
      explanation = js ''Deadlock occurs when processes hold resources and wait for resources held by others, causing indefinite wait.''\<rparr>,
     \<lparr>question = js ''What is virtual memory?'',
      options = [js ''RAM'', js ''Extended memory using disk storage'', js ''Cache memory'', js ''ROM''],
      correctAnswer = 1,
      explanation = js ''Virtual memory uses disk storage to extend available memory, allowing programs larger than physical RAM.''\<rparr>,
     \<lparr>question = js ''What is the difference between a process and a thread?'',
      options = [js ''No difference'', js ''Process has independent memory, thread shares memory with process'', js ''Thread is faster'', js ''Process is faster''],
      correctAnswer = 1,
      explanation = js ''Processes have independent memory spaces, while threads within a process share the same memory space.''\<rparr>]"

definition computerNetworks2 :: "quiz_question list" where
  "computerNetworks2 =
    [\<lparr>question = js ''Which layer of OSI model handles routing?'',
      options = [js ''Data Link Layer'', js ''Network Layer'', js ''Transport Layer'', js ''Application Layer''],
      correctAnswer = 1,
      explanation = js ''The Network Layer (Layer 3) is responsible for routing and logical addressing.''\<rparr>,
     \<lparr>question = js ''What is the purpose of TCP?'',
      options = [js ''Unreliable data transfer'', js ''Reliable, connection-oriented data transfer'', js ''Fast transfer'', js ''Broadcast''],
      correctAnswer = 1,
      explanation = js ''TCP provides reliable, connection-oriented delivery of data with error checking.''\<rparr>,
     \<lparr>question = js ''What is the range of well-known ports?'',
      options = [js ''0-255'', js ''0-1023'', js ''1024-65535'', js ''49152-65535''],
      correctAnswer = 1,
      explanation = js ''Well-known ports range from 0 to 1023 and are reserved for specific services.''\<rparr>,
     \<lparr>question = js ''Which protocol resolves IP addresses to MAC addresses?'',
      options = [js ''DHCP'', js ''DNS'', js ''ARP'', js ''IGMP''],
      correctAnswer = 2,
      explanation = js ''ARP (Address Resolution Protocol) maps IP addresses to MAC addresses.''\<rparr>,
     \<lparr>question = js ''What is the maximum size of an IPv4 datagram?'',
      options = [js ''256 bytes'', js ''512 bytes'', js ''1024 bytes'', js ''65535 bytes''],
      correctAnswer = 3,
      explanation = js ''Maximum IPv4 datagram size is 65535 bytes (16-bit length field).''\<rparr>]"

definition webDevelopment2 :: "quiz_question list" where
  "webDevelopment2 =
    [\<lparr>question = js ''What does HTML stand for?'',
      options = [js ''Hypertext Markup Language'', js ''High Tech Modern Language'', js ''Home Tool Markup Language'', js ''Hyperlinks and Text Markup Language''],
      correctAnswer = 0,
      explanation = js ''HTML stands for Hypertext Markup Language, used to structure web content.''\<rparr>,
     \<lparr>question = js ''Which is not a valid HTML semantic tag?'',
      options = [js ''<header>'', js ''<article>'', js ''<content>'', js ''<section>''],
      correctAnswer = 2,
      explanation = js ''<content> is not a valid semantic HTML tag. Use <article>, <section>, <header>, <footer>, etc.''\<rparr>,
     \<lparr>question = js ''What is the purpose of CSS?'',
      options = [js ''Structure content'', js ''Style and layout'', js ''Server-side logic'', js ''Database management''],
      correctAnswer = 1,
      explanation = js ''CSS (Cascading Style Sheets) is used for styling and layout of web pages.''\<rparr>,
     \<lparr>question = js ''What is an API in web development?'',
      options = [js ''A design pattern'', js ''Interface for applications to communicate'', js ''Database query'', js ''CSS framework''],
      correctAnswer = 1,
      explanation = js ''API (Application Programming Interface) allows applications to request and exchange data.''\<rparr>,
     \<lparr>question = js ''Which HTTP method is used to retrieve data?'',
      options = [js ''POST'', js ''GET'', js ''DELETE'', js ''PUT''],
      correctAnswer = 1,
      explanation = js ''GET method is used to retrieve data from a server without modifying it.''\<rparr>]"

definition cloudComputing2 :: "quiz_question list" where
  "cloudComputing2 =
    [\<lparr>question = js ''What does IaaS stand for?'',
      options = [js ''Infrastructure as a Service'', js ''Integration as a Service'', js ''Information as a Service'', js ''Internet as a Service''],
      correctAnswer = 0,
      explanation = js ''IaaS provides virtualized computing resources over the internet (e.g., AWS, Azure VMs).''\<rparr>,
     \<lparr>question = js ''Which cloud service model provides the most control?'',
      options = [js ''SaaS'', js ''PaaS'', js ''IaaS'', js ''All are same''],
      correctAnswer = 2,
      explanation = js ''IaaS provides the most control as users manage OS, middleware, and applications.''\<rparr>,
     \<lparr>question = js ''What is containerization?'',
      options = [js ''Storing data in containers'', js ''Packaging applications with dependencies'', js ''Cloud storage'', js ''Network isolation''],
      correctAnswer = 1,
      explanation = js ''Containerization packages applications with their dependencies for consistent deployment.''\<rparr>,
     \<lparr>question = js ''Which service automatically scales resources?'',
      options = [js ''Load Balancing'', js ''Auto Scaling'', js ''Caching'', js ''Monitoring''],
      correctAnswer = 1,
      explanation = js ''Auto Scaling automatically adjusts computing resources based on demand.''\<rparr>,
     \<lparr>question = js ''What is multi-tenancy in cloud computing?'',
      options = [js ''Multiple clouds'', js ''Multiple users sharing same resources'', js ''Multiple databases'', js ''Multiple servers''],
      correctAnswer = 1,
      explanation = js ''Multi-tenancy allows multiple customers to share the same cloud resources safely.''\<rparr>]"

definition devOps2 :: "quiz_question list" where
  "devOps2 =
    [\<lparr>question = js ''What does CI/CD stand for?'',
      options = [js ''Continuous Integration/Continuous Deployment'', js ''Code Integration/Code Deployment'', js ''Central Interface/Central Data'', js ''Continuous Interface/Continuous Data''],
      correctAnswer = 0,
      explanation = js ''CI/CD automates integration, testing, and deployment of code changes.''\<rparr>,
     \<lparr>question = js ''What is Docker used for?'',
      options = [js ''Documentation'', js ''Containerization of applications'', js ''Database management'', js ''Version control''],
      correctAnswer = 1,
      explanation = js ''Docker is used for containerizing applications to ensure consistency across environments.''\<rparr>,
     \<lparr>question = js ''What is Kubernetes?'',
      options = [js ''Container registry'', js ''Container orchestration platform'', js ''Monitoring tool'', js ''CI/CD platform''],
      correctAnswer = 1,
      explanation = js ''Kubernetes automates deployment, scaling, and management of containerized applications.''\<rparr>,
     \<lparr>question = js ''What is Infrastructure as Code (IaC)?'',
      options = [js ''Coding standards'', js ''Managing infrastructure using code'', js ''Cloud API'', js ''Database scripts''],
      correctAnswer = 1,
      explanation = js ''IaC manages infrastructure through code (e.g., Terraform, CloudFormation) instead of manual processes.''\<rparr>,
     \<lparr>question = js ''Which is a popular configuration management tool?'',
      options = [js ''Docker'', js ''Kubernetes'', js ''Ansible'', js ''Git''],
      correctAnswer = 2,
      explanation = js ''Ansible is an IaC and configuration management tool for automating infrastructure tasks.''\<rparr>]"

definition mockQuestions2 :: "(jsstring \<times> quiz_question list) list" where
  "mockQuestions2 =
    [(js ''Data Structures'', dataStructures2),
     (js ''Algorithms'', algorithms2),
     (js ''Database Management'', databaseManagement2),
     (js ''Operating Systems'', operatingSystems2),
     (js ''Computer Networks'', computerNetworks2),
     (js ''Web Development'', webDevelopment2),
     (js ''Cloud Computing'', cloudComputing2),
     (js ''DevOps'', devOps2)]"

text \<open>
  The second \<open>generateMockQuestions\<close> of aiService.js (lines 1107 to 1368) returns
  \<open>mockQuestions[subject] || mockQuestions['Data Structures']\<close>: the list of the
  subject, the inherited member when the subject is the name of one (a function or
  \<open>Object.prototype\<close>, which are truthy), and the default list otherwise.
\<close>

datatype returned = Questions "quiz_question list" | PrototypeMember jsstring

definition generateMockQuestions2 :: "jsstring \<Rightarrow> difficulty \<Rightarrow> returned" where
  "generateMockQuestions2 subject difficulty =
    (case member mockQuestions2 subject of
       Own questions \<Rightarrow> Questions questions
     | Inherited \<Rightarrow> PrototypeMember subject
     | Undefined \<Rightarrow> Questions dataStructures2)"

section \<open>The application (App.jsx)\<close>

text \<open>
  The four values of \<open>appState\<close>, and the object \<open>{score, totalQuestions}\<close> that
  \<open>onComplete\<close> receives; its \<open>score\<close> is the field \<open>score_result\<close> here, since the state
  of the quiz has a \<open>score\<close> of its own.
\<close>

datatype screen = Selection | Loading | Quiz | Results

record quiz_results =
  score_result :: nat
  totalQuestions :: nat

record app =
  appState :: screen
  selectedSubject :: "jsstring option"
  selectedDifficulty :: "difficulty option"
  questions :: "quiz_question list"
  quizResults :: "quiz_results option"
  loading :: bool
  error :: "error option"

record selection =
  subject :: jsstring
  difficulty :: difficulty

text \<open>
  The inner \<open>try\<close> of \<open>handleSelectSubject\<close> (lines 25 to 40): whatever
  \<open>generateQuizQuestions\<close> throws is caught, and the questions then come from
  \<open>generateMockQuestions\<close>.
\<close>

definition acquireQuestions ::
    "remote \<Rightarrow> (nat \<Rightarrow> dyadic) \<Rightarrow> jsstring \<Rightarrow> difficulty \<Rightarrow> error + quiz_question list" where
  "acquireQuestions remote random name level =
    (case generateQuizQuestions remote name level 5 of
       Inr generatedQuestions \<Rightarrow> Inr generatedQuestions
     | Inl apiError \<Rightarrow> Inr (generateMockQuestions random name level))"

text \<open>
  \<open>handleSelectSubject\<close> (lines 17 to 50), with the outer \<open>try\<close>, its \<open>catch\<close> and its
  \<open>finally\<close>.
\<close>

definition handleSelectSubject ::
    "remote \<Rightarrow> (nat \<Rightarrow> dyadic) \<Rightarrow> selection \<Rightarrow> app \<Rightarrow> app" where
  "handleSelectSubject remote random selectionData a =
    (let a1 = a\<lparr>selectedSubject := Some (subject selectionData),
                 selectedDifficulty := Some (difficulty selectionData),
                 appState := Loading,
                 error := None,
                 loading := True\<rparr>
     in case acquireQuestions remote random (subject selectionData) (difficulty selectionData) of
          Inr generatedQuestions \<Rightarrow>
            a1\<lparr>questions := generatedQuestions, appState := Quiz, loading := False\<rparr>
        | Inl err \<Rightarrow>
            a1\<lparr>error := Some err, appState := Selection, loading := False\<rparr>)"

definition handleQuizComplete :: "quiz_results \<Rightarrow> app \<Rightarrow> app" where
  "handleQuizComplete results a = a\<lparr>quizResults := Some results, appState := Results\<rparr>"

section \<open>The quiz (QuizDisplay.jsx)\<close>

subsection \<open>State and handlers\<close>

text \<open>
  The state of the component. \<open>selectedAnswers\<close> is an object whose keys are question
  indices and whose values are the option indices that the option buttons pass.
\<close>

record quiz_state =
  currentQuestion :: nat
  score :: nat
  selectedAnswers :: "nat \<rightharpoonup> nat"
  showResult :: bool

definition initialQuiz :: quiz_state where
  "initialQuiz = \<lparr>currentQuestion = 0, score = 0, selectedAnswers = Map.empty, showResult = False\<rparr>"

text \<open>
  \<open>handleAnswerClick\<close> (lines 16 to 28). The guard \<open>!selectedAnswers[currentQuestion]\<close>
  holds when the entry is \<open>undefined\<close> and also when it is the number \<open>0\<close>. Inside the
  guard the handler reads \<open>question.correctAnswer\<close>, which throws when
  \<open>questions[currentQuestion]\<close> is \<open>undefined\<close>.
\<close>

definition handleAnswerClick ::
    "quiz_question list \<Rightarrow> nat \<Rightarrow> quiz_state \<Rightarrow> error + quiz_state" where
  "handleAnswerClick qs optionIndex s =
    (if selectedAnswers s (currentQuestion s) = None \<or>
        selectedAnswers s (currentQuestion s) = Some 0
     then
       if currentQuestion s < length qs
       then Inr (s\<lparr>selectedAnswers := (selectedAnswers s)(currentQuestion s \<mapsto> optionIndex),
                   score := (if of_nat optionIndex = correctAnswer (qs ! currentQuestion s)
                             then score s + 1 else score s),
                   showResult := True\<rparr>)
       else Inl TypeError
     else Inr s)"

text \<open>
  \<open>handleNext\<close> (lines 30 to 38) either moves to the next question or calls
  \<open>onComplete\<close> with the score and the number of questions.
\<close>

datatype advance = Next quiz_state | Completed quiz_results

definition handleNext :: "quiz_question list \<Rightarrow> quiz_state \<Rightarrow> advance" where
  "handleNext qs s =
    (if int (currentQuestion s) < int (length qs) - 1
     then Next (s\<lparr>currentQuestion := currentQuestion s + 1, showResult := False\<rparr>)
     else Completed \<lparr>score_result = score s, totalQuestions = length qs\<rparr>)"

definition isAnswered :: "quiz_state \<Rightarrow> bool" where
  "isAnswered s \<longleftrightarrow> selectedAnswers s (currentQuestion s) \<noteq> None"

subsection \<open>The rendered controls\<close>

text \<open>
  The component renders nothing to press when \<open>questions\<close> is empty, and cannot render
  when \<open>questions[currentQuestion]\<close> is \<open>undefined\<close>. Otherwise it renders one button
  for each option of the current question, disabled when the question is answered
  (\<open>disabled={isAnswered}\<close>), and the next button, disabled when it is not
  (\<open>disabled={!isAnswered}\<close>). App renders the component in the state \<open>quiz\<close> while
  \<open>loading\<close> is false.
\<close>

record session =
  application :: app
  display :: quiz_state

definition rendered :: "session \<Rightarrow> bool" where
  "rendered x \<longleftrightarrow>
     appState (application x) = Quiz \<and> \<not> loading (application x) \<and>
     currentQuestion (display x) < length (questions (application x))"

definition optionEnabled :: "session \<Rightarrow> nat \<Rightarrow> bool" where
  "optionEnabled x k \<longleftrightarrow>
     rendered x \<and> \<not> isAnswered (display x) \<and>
     k < length (options (questions (application x) ! currentQuestion (display x)))"

definition nextEnabled :: "session \<Rightarrow> bool" where
  "nextEnabled x \<longleftrightarrow> rendered x \<and> isAnswered (display x)"

datatype event = AnswerQuestion nat | Advance

text \<open>A press of a control that is absent or disabled calls no handler.\<close>

fun press :: "event \<Rightarrow> session \<Rightarrow> session" where
  "press (AnswerQuestion k) x =
     (if optionEnabled x k
      then (case handleAnswerClick (questions (application x)) k (display x) of
              Inr s \<Rightarrow> x\<lparr>display := s\<rparr>
            | Inl e \<Rightarrow> x)
      else x)"
| "press Advance x =
     (if nextEnabled x
      then (case handleNext (questions (application x)) (display x) of
              Next s \<Rightarrow> x\<lparr>display := s\<rparr>
            | Completed results \<Rightarrow> x\<lparr>application := handleQuizComplete results (application x)\<rparr>)
      else x)"

definition run :: "event list \<Rightarrow> session \<Rightarrow> session" where
  "run events x = foldl (\<lambda>y e. press e y) x events"

text \<open>A quiz starts when the questions arrive: the component is mounted in its initial state.\<close>

definition startQuiz :: "remote \<Rightarrow> (nat \<Rightarrow> dyadic) \<Rightarrow> selection \<Rightarrow> app \<Rightarrow> session" where
  "startQuiz remote random selectionData a =
     \<lparr>application = handleSelectSubject remote random selectionData a, display = initialQuiz\<rparr>"

text \<open>
  The score rule of the specification: the number of indices whose recorded answer is
  the correct answer of the question.
\<close>

definition countCorrect :: "quiz_question list \<Rightarrow> (nat \<rightharpoonup> nat) \<Rightarrow> nat" where
  "countCorrect qs answers =
     length (filter (\<lambda>i. case answers i of
                            Some k \<Rightarrow> of_nat k = correctAnswer (qs ! i)
                          | None \<Rightarrow> False) [0..<length qs])"

text \<open>
  The invariant of a quiz: while the quiz is shown the running score is the score of
  the rule, and once the results are shown they hold that score and the number of
  questions.
\<close>

definition scored :: "session \<Rightarrow> bool" where
  "scored x \<longleftrightarrow>
     (appState (application x) = Quiz \<and>
      score (display x) = countCorrect (questions (application x)) (selectedAnswers (display x))) \<or>
     (appState (application x) = Results \<and>
      quizResults (application x) =
        Some \<lparr>score_result = countCorrect (questions (application x)) (selectedAnswers (display x)),
              totalQuestions = length (questions (application x))\<rparr>)"

section \<open>Properties of strings\<close>

lemma unat_of_char16: "unat (of_char c :: 16 word) = of_char c"
proof -
  have "(of_char c :: nat) < 256" by simp
  moreover have "(256::nat) \<le> 2 ^ 16" by simp
  ultimately have "(of_char c :: nat) < 2 ^ 16" by (rule less_le_trans)
  have "(of_char c :: 16 word) = of_nat (of_char c)" by (simp add: of_nat_of_char)
  then show ?thesis using \<open>(of_char c :: nat) < 2 ^ 16\<close> by (simp add: unat_of_nat)
qed

lemma of_char16_eq_iff: "(of_char c :: 16 word) = of_char d \<longleftrightarrow> c = d"
proof
  assume "(of_char c :: 16 word) = of_char d"
  then have "unat (of_char c :: 16 word) = unat (of_char d :: 16 word)" by simp
  then show "c = d" by (simp add: unat_of_char16)
qed simp

lemma js_eq_iff: "js s = js t \<longleftrightarrow> s = t"
  unfolding js_def by (rule inj_map_eq_map) (simp add: inj_on_def of_char16_eq_iff)

lemma js_eq_Nil: "js s = [] \<longleftrightarrow> s = []"
  by (simp add: js_def)

lemma dropWhile_id: "xs = [] \<or> \<not> P (hd xs) \<Longrightarrow> dropWhile P xs = xs"
  by (cases xs) auto

lemma trim_idem: "trim (trim s) = trim s"
proof -
  define a where "a = dropWhile isWhiteSpace s"
  define b where "b = dropWhile isWhiteSpace (rev a)"
  have t: "trim s = rev b" by (simp add: trim_def a_def b_def)
  have b1: "b = [] \<or> \<not> isWhiteSpace (hd b)"
    using hd_dropWhile[of isWhiteSpace "rev a"] by (auto simp: b_def)
  have a1: "a = [] \<or> \<not> isWhiteSpace (hd a)"
    using hd_dropWhile[of isWhiteSpace s] by (auto simp: a_def)
  have "rev b = [] \<or> \<not> isWhiteSpace (hd (rev b))"
  proof (cases "b = []")
    case True then show ?thesis by simp
  next
    case False
    then have "rev a \<noteq> []" by (auto simp: b_def)
    then have an: "a \<noteq> []" by simp
    have "last b = last (rev a)" using False unfolding b_def
      by (metis takeWhile_dropWhile_id last_appendR)
    then have "last b = hd a" using an by (simp add: last_rev)
    then show ?thesis using a1 an False by (simp add: hd_rev)
  qed
  then have r: "dropWhile isWhiteSpace (rev b) = rev b" by (rule dropWhile_id)
  have l: "dropWhile isWhiteSpace b = b" using b1 by (rule dropWhile_id)
  have "trim (rev b) = rev b" unfolding trim_def r by (simp add: l)
  then show ?thesis by (simp only: t)
qed

lemma trim_examples:
  "trim (js ''   '') = []"
  "trim (js ''  2 + 2 = ? '') = js ''2 + 2 = ?''"
  "trim (js ''why'') = js ''why''"
  "trim (js ''A'') = js ''A''"
  "trim (js ''B'') = js ''B''"
  "trim (js ''C'') = js ''C''"
  "trim (js ''D'') = js ''D''"
  "trim (js ''Q'') = js ''Q''"
  by (simp_all add: trim_def js_def isWhiteSpace_def)

section \<open>Properties of the validator\<close>

lemma property_candidate:
  "property (candidate t opts a e) (js ''question'') = Some t"
  "property (candidate t opts a e) (js ''options'') = Some opts"
  "property (candidate t opts a e) (js ''correctAnswer'') = Some a"
  "property (candidate t opts a e) (js ''explanation'') = Some e"
  by (simp_all add: candidate_def js_eq_iff)

lemma candidate_not_null: "candidate t opts a e \<noteq> JNull"
  by (simp add: candidate_def)

lemma those_map_stringOf: "those (map (stringOf \<circ> JStr) xs) = Some xs"
  by (induction xs) simp_all

lemma those_stringOf_length: "those (map stringOf xs) = Some ys \<Longrightarrow> length ys = length xs"
  by (induction xs arbitrary: ys) (auto split: option.splits)

lemma those_stringOf_map: "those (map stringOf xs) = Some ys \<Longrightarrow> xs = map JStr ys"
proof (induction xs arbitrary: ys)
  case Nil then show ?case by simp
next
  case (Cons x xs)
  then show ?case by (cases x) (auto split: option.splits)
qed

lemma those_stringOf_both:
  "those (map stringOf xs) = Some ys \<Longrightarrow> xs = map JStr ys \<and> length ys = length xs"
  by (simp add: those_stringOf_map those_stringOf_length)

lemma trim_comp: "trim \<circ> trim = trim"
  by (rule ext) (simp add: trim_idem)

lemma nonEmptyString_Some: "nonEmptyString v = Some s \<longleftrightarrow> v = Some (JStr s) \<and> s \<noteq> []"
  by (cases v rule: nonEmptyString.cases) auto

lemma arrayOf_Some: "arrayOf v = Some xs \<longleftrightarrow> v = Some (JArr xs)"
  by (cases v rule: arrayOf.cases) auto

lemma numberOf_Some: "numberOf v = Some r \<longleftrightarrow> v = Some (JNum r)"
  by (cases v rule: numberOf.cases) auto

lemma validateQuestion_Inr:
  assumes "validateQuestion i c = Inr v"
  shows "\<exists>t strs n expl.
           c \<noteq> JNull \<and>
           property c (js ''question'') = Some (JStr t) \<and> t \<noteq> [] \<and>
           property c (js ''options'') = Some (JArr (map JStr strs)) \<and> length strs = 4 \<and>
           property c (js ''correctAnswer'') = Some (JNum n) \<and> 0 \<le> n \<and> n \<le> 3 \<and>
           property c (js ''explanation'') = Some (JStr expl) \<and> expl \<noteq> [] \<and>
           v = \<lparr>question = trim t, options = map trim strs, correctAnswer = n,
                explanation = trim expl\<rparr>"
proof -
  from assms have nn: "c \<noteq> JNull"
    by (auto simp: validateQuestion_def)
  from assms nn obtain t where t: "nonEmptyString (property c (js ''question'')) = Some t"
    by (cases "nonEmptyString (property c (js ''question''))") (auto simp: validateQuestion_def)
  from assms nn t obtain opts where o: "arrayOf (property c (js ''options'')) = Some opts"
    by (cases "arrayOf (property c (js ''options''))") (auto simp: validateQuestion_def)
  from assms nn t o have len: "length opts = 4"
    by (auto simp: validateQuestion_def split: if_splits)
  from assms nn t o len obtain strs where s: "those (map stringOf opts) = Some strs"
    by (cases "those (map stringOf opts)") (auto simp: validateQuestion_def)
  from assms nn t o len s obtain n where n: "numberOf (property c (js ''correctAnswer'')) = Some n"
    by (cases "numberOf (property c (js ''correctAnswer''))") (auto simp: validateQuestion_def)
  from assms nn t o len s n have r: "0 \<le> n" "n \<le> 3"
    by (auto simp: validateQuestion_def split: if_splits)
  from assms nn t o len s n r obtain expl where
    e: "nonEmptyString (property c (js ''explanation'')) = Some expl"
    by (cases "nonEmptyString (property c (js ''explanation''))") (auto simp: validateQuestion_def)
  from assms nn t o len s n r e have
    v: "v = \<lparr>question = trim t, options = map trim strs, correctAnswer = n,
              explanation = trim expl\<rparr>"
    by (auto simp: validateQuestion_def)
  from s have so: "opts = map JStr strs" and sl: "length strs = length opts"
    by (simp_all add: those_stringOf_both)
  from t have t1: "property c (js ''question'') = Some (JStr t)" and t2: "t \<noteq> []"
    by (simp_all add: nonEmptyString_Some)
  from o so have o1: "property c (js ''options'') = Some (JArr (map JStr strs))"
    by (simp add: arrayOf_Some)
  from sl len have o2: "length strs = 4" by simp
  from n have n1: "property c (js ''correctAnswer'') = Some (JNum n)"
    by (simp add: numberOf_Some)
  from e have e1: "property c (js ''explanation'') = Some (JStr expl)" and e2: "expl \<noteq> []"
    by (simp_all add: nonEmptyString_Some)
  from nn t1 t2 o1 o2 n1 r e1 e2 v show ?thesis by blast
qed

lemma validateQuestion_candidate:
  "validateQuestion j (candidate (JStr t) (JArr (map JStr strs)) (JNum n) (JStr e)) =
     (if t = [] then Inl (InvalidQuestionText (j + 1))
      else if length strs \<noteq> 4 then Inl (NotFourOptions (j + 1))
      else if n < 0 \<or> n > 3 then Inl (CorrectAnswerOutOfRange (j + 1))
      else if e = [] then Inl (InvalidExplanation (j + 1))
      else Inr \<lparr>question = trim t, options = map trim strs, correctAnswer = n,
                explanation = trim e\<rparr>)"
  unfolding validateQuestion_def
  by (simp add: property_candidate candidate_not_null those_map_stringOf)

lemma validateQuestion_objectOf:
  "validateQuestion j (objectOf q) =
     (if question q = [] then Inl (InvalidQuestionText (j + 1))
      else if length (options q) \<noteq> 4 then Inl (NotFourOptions (j + 1))
      else if correctAnswer q < 0 \<or> correctAnswer q > 3 then Inl (CorrectAnswerOutOfRange (j + 1))
      else if explanation q = [] then Inl (InvalidExplanation (j + 1))
      else Inr \<lparr>question = trim (question q), options = map trim (options q),
                correctAnswer = correctAnswer q, explanation = trim (explanation q)\<rparr>)"
  by (simp only: objectOf_def validateQuestion_candidate)


lemma nonEmptyString_None: "nonEmptyString v = None \<longleftrightarrow> \<not> (case v of Some (JStr s) \<Rightarrow> s \<noteq> [] | _ \<Rightarrow> False)"
  by (cases v rule: nonEmptyString.cases) auto

lemma arrayOf_None: "arrayOf v = None \<longleftrightarrow> \<not> (case v of Some (JArr xs) \<Rightarrow> True | _ \<Rightarrow> False)"
  by (cases v rule: arrayOf.cases) auto

lemma numberOf_None: "numberOf v = None \<longleftrightarrow> \<not> (case v of Some (JNum r) \<Rightarrow> True | _ \<Rightarrow> False)"
  by (cases v rule: numberOf.cases) auto

lemma those_stringOf_None: "those (map stringOf xs) = None \<longleftrightarrow> \<not> list_all isString xs"
proof (induction xs)
  case Nil then show ?case by simp
next
  case (Cons x xs)
  then show ?case by (cases x) (auto split: option.splits)
qed

lemma reject_text:
  "c \<noteq> JNull \<Longrightarrow> \<not> textPresent c \<Longrightarrow> validateQuestion i c = Inl (InvalidQuestionText (i + 1))"
  by (cases "nonEmptyString (property c (js ''question''))")
     (auto simp: validateQuestion_def textPresent_def nonEmptyString_Some)

lemma reject_count:
  assumes "c \<noteq> JNull" "textPresent c" "\<not> fourOptions c"
  shows "validateQuestion i c = Inl (NotFourOptions (i + 1))"
proof -
  from assms(2) obtain t where t: "nonEmptyString (property c (js ''question'')) = Some t"
    by (cases "nonEmptyString (property c (js ''question''))")
       (auto simp: textPresent_def nonEmptyString_None)
  show ?thesis
  proof (cases "arrayOf (property c (js ''options''))")
    case None
    then show ?thesis using assms(1) t by (simp add: validateQuestion_def)
  next
    case (Some opts)
    then have "length opts \<noteq> 4" using assms(3) by (auto simp: fourOptions_def arrayOf_Some)
    then show ?thesis using assms(1) t Some by (simp add: validateQuestion_def)
  qed
qed

lemma textPresentD: "textPresent c \<Longrightarrow> \<exists>t. property c (js ''question'') = Some (JStr t) \<and> t \<noteq> []"
  by (auto simp: textPresent_def split: option.splits json.splits)

lemma fourOptionsD: "fourOptions c \<Longrightarrow> \<exists>xs. property c (js ''options'') = Some (JArr xs) \<and> length xs = 4"
  by (auto simp: fourOptions_def split: option.splits json.splits)

lemma answerInRangeD:
  "answerInRange c \<Longrightarrow> \<exists>n. property c (js ''correctAnswer'') = Some (JNum n) \<and> 0 \<le> n \<and> n \<le> 3"
  by (auto simp: answerInRange_def split: option.splits json.splits)

lemma explanationPresentD:
  "explanationPresent c \<Longrightarrow> \<exists>e. property c (js ''explanation'') = Some (JStr e) \<and> e \<noteq> []"
  by (auto simp: explanationPresent_def split: option.splits json.splits)

lemma list_all_isString: "list_all isString xs \<Longrightarrow> \<exists>strs. xs = map JStr strs"
proof (induction xs)
  case Nil then show ?case by simp
next
  case (Cons x xs)
  then obtain strs where "xs = map JStr strs" by auto
  moreover from Cons.prems obtain s where "x = JStr s" by (cases x) auto
  ultimately have "x # xs = map JStr (s # strs)" by simp
  then show ?case by (rule exI)
qed

lemma reject_strings:
  assumes "c \<noteq> JNull" "textPresent c" "fourOptions c" "\<not> optionsAreStrings c"
  shows "validateQuestion i c = Inl (OptionNotString (i + 1))"
proof -
  from textPresentD[OF assms(2)] obtain t where
    t: "property c (js ''question'') = Some (JStr t)" "t \<noteq> []" by blast
  from fourOptionsD[OF assms(3)] obtain xs where
    o: "property c (js ''options'') = Some (JArr xs)" "length xs = 4" by blast
  from assms(4) o have "those (map stringOf xs) = None"
    by (simp add: optionsAreStrings_def those_stringOf_None)
  then show ?thesis using assms(1) t o by (simp add: validateQuestion_def)
qed

lemma reject_answer:
  assumes "c \<noteq> JNull" "textPresent c" "fourOptions c" "optionsAreStrings c"
    "\<not> answerInRange c"
  shows "validateQuestion i c = Inl (CorrectAnswerOutOfRange (i + 1))"
proof -
  from textPresentD[OF assms(2)] obtain t where
    t: "property c (js ''question'') = Some (JStr t)" "t \<noteq> []" by blast
  from fourOptionsD[OF assms(3)] obtain xs where
    o: "property c (js ''options'') = Some (JArr xs)" "length xs = 4" by blast
  from assms(4) o obtain strs where "xs = map JStr strs"
    by (auto simp: optionsAreStrings_def dest: list_all_isString)
  then have s: "those (map stringOf xs) = Some strs" by (simp add: those_map_stringOf)
  show ?thesis
  proof (cases "numberOf (property c (js ''correctAnswer''))")
    case None
    then show ?thesis using assms(1) t o s by (simp add: validateQuestion_def)
  next
    case (Some n)
    then have "n < 0 \<or> n > 3" using assms(5)
      by (auto simp: answerInRange_def numberOf_Some)
    then show ?thesis using assms(1) t o s Some by (auto simp: validateQuestion_def)
  qed
qed

lemma reject_explanation:
  assumes "c \<noteq> JNull" "textPresent c" "fourOptions c" "optionsAreStrings c"
    "answerInRange c" "\<not> explanationPresent c"
  shows "validateQuestion i c = Inl (InvalidExplanation (i + 1))"
proof -
  from textPresentD[OF assms(2)] obtain t where
    t: "property c (js ''question'') = Some (JStr t)" "t \<noteq> []" by blast
  from fourOptionsD[OF assms(3)] obtain xs where
    o: "property c (js ''options'') = Some (JArr xs)" "length xs = 4" by blast
  from assms(4) o obtain strs where "xs = map JStr strs"
    by (auto simp: optionsAreStrings_def dest: list_all_isString)
  then have s: "those (map stringOf xs) = Some strs" by (simp add: those_map_stringOf)
  from answerInRangeD[OF assms(5)] obtain n where
    n: "property c (js ''correctAnswer'') = Some (JNum n)" "0 \<le> n" "n \<le> 3" by blast
  from assms(6) have "nonEmptyString (property c (js ''explanation'')) = None"
    by (simp add: explanationPresent_def nonEmptyString_None)
  then show ?thesis using assms(1) t o s n by (simp add: validateQuestion_def)
qed

lemma accept_all:
  assumes "c \<noteq> JNull" "textPresent c" "fourOptions c" "optionsAreStrings c"
    "answerInRange c" "explanationPresent c"
  shows "\<exists>t strs n expl.
           property c (js ''question'') = Some (JStr t) \<and>
           property c (js ''options'') = Some (JArr (map JStr strs)) \<and>
           property c (js ''correctAnswer'') = Some (JNum n) \<and>
           property c (js ''explanation'') = Some (JStr expl) \<and>
           validateQuestion i c =
             Inr \<lparr>question = trim t, options = map trim strs, correctAnswer = n,
                  explanation = trim expl\<rparr>"
proof -
  from textPresentD[OF assms(2)] obtain t where
    t: "property c (js ''question'') = Some (JStr t)" "t \<noteq> []" by blast
  from fourOptionsD[OF assms(3)] obtain xs where
    o: "property c (js ''options'') = Some (JArr xs)" "length xs = 4" by blast
  from assms(4) o obtain strs where x: "xs = map JStr strs"
    by (auto simp: optionsAreStrings_def dest: list_all_isString)
  then have s: "those (map stringOf xs) = Some strs" by (simp add: those_map_stringOf)
  from answerInRangeD[OF assms(5)] obtain n where
    n: "property c (js ''correctAnswer'') = Some (JNum n)" "0 \<le> n" "n \<le> 3" by blast
  from explanationPresentD[OF assms(6)] obtain e where
    e: "property c (js ''explanation'') = Some (JStr e)" "e \<noteq> []" by blast
  have "validateQuestion i c =
          Inr \<lparr>question = trim t, options = map trim strs, correctAnswer = n,
               explanation = trim e\<rparr>"
    using assms(1) t o s n e by (simp add: validateQuestion_def)
  with t(1) o(1) x n(1) e(1) show ?thesis by blast
qed


text \<open>
  Claim C4, as the code has it. For every candidate other than \<open>null\<close> the validator
  returns a normalized question or an error that names the offending field, and the
  first rule that fails decides: a candidate whose text is not a non-empty string is
  rejected for its text; otherwise one whose options are not an array of exactly four
  entries, or hold an entry that is not a string, is rejected for its options;
  otherwise one whose correct answer is not a number from \<open>0\<close> to \<open>3\<close> is rejected
  for its correct answer; otherwise one whose explanation is not a non-empty string is
  rejected for its explanation; and a candidate that passes all rules yields its
  text, options and explanation trimmed and its correct answer unchanged. The text
  and the explanation are tested before they are trimmed, and the correct answer is
  not tested for being an integer.
\<close>

theorem validateQuestion_rules:
  assumes "c \<noteq> JNull"
  shows "(\<not> textPresent c \<longrightarrow> validateQuestion i c = Inl (InvalidQuestionText (i + 1))) \<and>
         (textPresent c \<and> \<not> fourOptions c \<longrightarrow>
            validateQuestion i c = Inl (NotFourOptions (i + 1))) \<and>
         (textPresent c \<and> fourOptions c \<and> \<not> optionsAreStrings c \<longrightarrow>
            validateQuestion i c = Inl (OptionNotString (i + 1))) \<and>
         (textPresent c \<and> fourOptions c \<and> optionsAreStrings c \<and> \<not> answerInRange c \<longrightarrow>
            validateQuestion i c = Inl (CorrectAnswerOutOfRange (i + 1))) \<and>
         (textPresent c \<and> fourOptions c \<and> optionsAreStrings c \<and> answerInRange c \<and>
          \<not> explanationPresent c \<longrightarrow>
            validateQuestion i c = Inl (InvalidExplanation (i + 1))) \<and>
         (textPresent c \<and> fourOptions c \<and> optionsAreStrings c \<and> answerInRange c \<and>
          explanationPresent c \<longrightarrow>
            (\<exists>t strs n expl.
               property c (js ''question'') = Some (JStr t) \<and>
               property c (js ''options'') = Some (JArr (map JStr strs)) \<and>
               property c (js ''correctAnswer'') = Some (JNum n) \<and>
               property c (js ''explanation'') = Some (JStr expl) \<and>
               validateQuestion i c =
                 Inr \<lparr>question = trim t, options = map trim strs, correctAnswer = n,
                      explanation = trim expl\<rparr>))"
  using assms reject_text[of c i] reject_count[of c i] reject_strings[of c i]
    reject_answer[of c i] reject_explanation[of c i] accept_all[of c i]
  by blast

text \<open>
  The rejections that the specification lists: three options, five options, a
  correct answer of \<open>4\<close> and of \<open>-1\<close>, an empty question and a missing explanation
  (and an option that is a number).
\<close>

theorem validateQuestion_rules_witness:
  "validateQuestion 0
     (candidate (JStr (js ''Q'')) (JArr [JStr (js ''A''), JStr (js ''B''), JStr (js ''C'')])
        (JNum 0) (JStr (js ''why''))) = Inl (NotFourOptions 1) \<and>
   validateQuestion 0
     (candidate (JStr (js ''Q''))
        (JArr [JStr (js ''A''), JStr (js ''B''), JStr (js ''C''), JStr (js ''D''), JStr (js ''E'')])
        (JNum 0) (JStr (js ''why''))) = Inl (NotFourOptions 1) \<and>
   validateQuestion 0
     (candidate (JStr (js ''Q''))
        (JArr [JStr (js ''A''), JStr (js ''B''), JStr (js ''C''), JNum 4])
        (JNum 0) (JStr (js ''why''))) = Inl (OptionNotString 1) \<and>
   validateQuestion 0
     (candidate (JStr (js ''Q''))
        (JArr [JStr (js ''A''), JStr (js ''B''), JStr (js ''C''), JStr (js ''D'')])
        (JNum 4) (JStr (js ''why''))) = Inl (CorrectAnswerOutOfRange 1) \<and>
   validateQuestion 0
     (candidate (JStr (js ''Q''))
        (JArr [JStr (js ''A''), JStr (js ''B''), JStr (js ''C''), JStr (js ''D'')])
        (JNum (- 1)) (JStr (js ''why''))) = Inl (CorrectAnswerOutOfRange 1) \<and>
   validateQuestion 0
     (candidate (JStr (js ''''))
        (JArr [JStr (js ''A''), JStr (js ''B''), JStr (js ''C''), JStr (js ''D'')])
        (JNum 0) (JStr (js ''why''))) = Inl (InvalidQuestionText 1) \<and>
   validateQuestion 0
     (JObj [(js ''question'', JStr (js ''Q'')),
            (js ''options'', JArr [JStr (js ''A''), JStr (js ''B''), JStr (js ''C''), JStr (js ''D'')]),
            (js ''correctAnswer'', JNum 0)]) = Inl (InvalidExplanation 1)"
  using
    validateQuestion_rules[of "candidate (JStr (js ''Q'')) (JArr [JStr (js ''A''), JStr (js ''B''), JStr (js ''C'')])
        (JNum 0) (JStr (js ''why''))" 0]
    validateQuestion_rules[of "candidate (JStr (js ''Q''))
        (JArr [JStr (js ''A''), JStr (js ''B''), JStr (js ''C''), JStr (js ''D''), JStr (js ''E'')])
        (JNum 0) (JStr (js ''why''))" 0]
    validateQuestion_rules[of "candidate (JStr (js ''Q''))
        (JArr [JStr (js ''A''), JStr (js ''B''), JStr (js ''C''), JNum 4])
        (JNum 0) (JStr (js ''why''))" 0]
    validateQuestion_rules[of "candidate (JStr (js ''Q''))
        (JArr [JStr (js ''A''), JStr (js ''B''), JStr (js ''C''), JStr (js ''D'')])
        (JNum 4) (JStr (js ''why''))" 0]
    validateQuestion_rules[of "candidate (JStr (js ''Q''))
        (JArr [JStr (js ''A''), JStr (js ''B''), JStr (js ''C''), JStr (js ''D'')])
        (JNum (- 1)) (JStr (js ''why''))" 0]
    validateQuestion_rules[of "candidate (JStr (js ''''))
        (JArr [JStr (js ''A''), JStr (js ''B''), JStr (js ''C''), JStr (js ''D'')])
        (JNum 0) (JStr (js ''why''))" 0]
    validateQuestion_rules[of "JObj [(js ''question'', JStr (js ''Q'')),
            (js ''options'', JArr [JStr (js ''A''), JStr (js ''B''), JStr (js ''C''), JStr (js ''D'')]),
            (js ''correctAnswer'', JNum 0)]" 0]
  by (simp add: textPresent_def fourOptions_def optionsAreStrings_def answerInRange_def
        explanationPresent_def property_candidate candidate_not_null js_eq_iff js_eq_Nil)

text \<open>
  Claim C4 as the specification states it fails: a text of three spaces is not
  "non-empty after trimming", and \<open>3/2\<close> is not an integer, yet the validator accepts
  both candidates.
\<close>

theorem validator_accepts_blank_text_and_fraction:
  "validateQuestion 0
     (candidate (JStr (js ''   ''))
        (JArr [JStr (js ''A''), JStr (js ''B''), JStr (js ''C''), JStr (js ''D'')])
        (JNum 0) (JStr (js ''why''))) =
   Inr \<lparr>question = [], options = [js ''A'', js ''B'', js ''C'', js ''D''],
        correctAnswer = 0, explanation = js ''why''\<rparr> \<and>
   validateQuestion 0
     (candidate (JStr (js ''Q''))
        (JArr [JStr (js ''A''), JStr (js ''B''), JStr (js ''C''), JStr (js ''D'')])
        (JNum (3 / 2)) (JStr (js ''why''))) =
   Inr \<lparr>question = js ''Q'', options = [js ''A'', js ''B'', js ''C'', js ''D''],
        correctAnswer = 3 / 2, explanation = js ''why''\<rparr>"
  using validateQuestion_candidate[of 0 "js ''   ''" "[js ''A'', js ''B'', js ''C'', js ''D'']" 0 "js ''why''"]
    validateQuestion_candidate[of 0 "js ''Q''" "[js ''A'', js ''B'', js ''C'', js ''D'']" "3 / 2" "js ''why''"]
  by (simp add: trim_examples js_eq_Nil)

text \<open>
  Claim C5, as the code has it. For every question that a successful run of the
  validator produces, validating it again succeeds and returns the same question
  when its text and its explanation are non-empty; when the text is empty the second
  run rejects it for its text, and when only the explanation is empty, for its
  explanation.
\<close>

theorem revalidation:
  assumes "validateQuestion i c = Inr v"
  shows "(question v \<noteq> [] \<and> explanation v \<noteq> [] \<longrightarrow> validateQuestion j (objectOf v) = Inr v) \<and>
         (question v = [] \<longrightarrow> validateQuestion j (objectOf v) = Inl (InvalidQuestionText (j + 1))) \<and>
         (question v \<noteq> [] \<and> explanation v = [] \<longrightarrow>
            validateQuestion j (objectOf v) = Inl (InvalidExplanation (j + 1)))"
proof -
  from validateQuestion_Inr[OF assms] obtain t strs n expl where
    v: "v = \<lparr>question = trim t, options = map trim strs, correctAnswer = n, explanation = trim expl\<rparr>"
    and len: "length strs = 4" and n: "0 \<le> n" "n \<le> 3"
    by blast
  show ?thesis
    using len n by (simp add: validateQuestion_objectOf v trim_idem trim_comp)
qed

theorem revalidation_witness:
  "validateQuestion 0
     (candidate (JStr (js ''  2 + 2 = ? ''))
        (JArr [JStr (js ''A''), JStr (js ''B''), JStr (js ''C''), JStr (js ''D'')])
        (JNum 2) (JStr (js ''why''))) =
   Inr \<lparr>question = js ''2 + 2 = ?'', options = [js ''A'', js ''B'', js ''C'', js ''D''],
        correctAnswer = 2, explanation = js ''why''\<rparr> \<and>
   validateQuestion 1
     (objectOf \<lparr>question = js ''2 + 2 = ?'', options = [js ''A'', js ''B'', js ''C'', js ''D''],
                correctAnswer = 2, explanation = js ''why''\<rparr>) =
   Inr \<lparr>question = js ''2 + 2 = ?'', options = [js ''A'', js ''B'', js ''C'', js ''D''],
        correctAnswer = 2, explanation = js ''why''\<rparr>"
proof -
  have h: "validateQuestion 0
     (candidate (JStr (js ''  2 + 2 = ? ''))
        (JArr [JStr (js ''A''), JStr (js ''B''), JStr (js ''C''), JStr (js ''D'')])
        (JNum 2) (JStr (js ''why''))) =
   Inr \<lparr>question = js ''2 + 2 = ?'', options = [js ''A'', js ''B'', js ''C'', js ''D''],
        correctAnswer = 2, explanation = js ''why''\<rparr>"
    using validateQuestion_candidate[of 0 "js ''  2 + 2 = ? ''" "[js ''A'', js ''B'', js ''C'', js ''D'']" 2 "js ''why''"]
    by (simp add: trim_examples js_eq_Nil)
  show ?thesis using h revalidation[OF h, of 1] by (simp add: js_eq_Nil)
qed

text \<open>
  Claim C5 as the specification states it fails: the validator accepts a text of three
  spaces and returns the empty text, which it rejects when it validates its own
  output.
\<close>

theorem revalidation_fails_on_blank_text:
  "validateQuestion 0
     (candidate (JStr (js ''   ''))
        (JArr [JStr (js ''A''), JStr (js ''B''), JStr (js ''C''), JStr (js ''D'')])
        (JNum 0) (JStr (js ''why''))) =
   Inr \<lparr>question = [], options = [js ''A'', js ''B'', js ''C'', js ''D''],
        correctAnswer = 0, explanation = js ''why''\<rparr> \<and>
   validateQuestion 0
     (objectOf \<lparr>question = [], options = [js ''A'', js ''B'', js ''C'', js ''D''],
                correctAnswer = 0, explanation = js ''why''\<rparr>) =
   Inl (InvalidQuestionText 1)"
  using validateQuestion_candidate[of 0 "js ''   ''" "[js ''A'', js ''B'', js ''C'', js ''D'']" 0 "js ''why''"]
  by (simp add: trim_examples js_eq_Nil validateQuestion_objectOf)

section \<open>Properties of the random index\<close>

lemma bitlen_bounds: "0 < n \<Longrightarrow> 2 ^ (bitlen n - 1) \<le> n \<and> n < 2 ^ bitlen n"
proof (induction n rule: bitlen.induct)
  case (1 n)
  show ?case
  proof (cases "n div 2 = 0")
    case True
    with 1(2) have "n = 1" by arith
    then show ?thesis by (simp add: bitlen.simps)
  next
    case False
    then have p: "0 < n div 2" by simp
    from 1(2) have n0: "n \<noteq> 0" by simp
    from 1(1)[OF n0 p] have ih: "2 ^ (bitlen (n div 2) - 1) \<le> n div 2" "n div 2 < 2 ^ bitlen (n div 2)"
      by simp_all
    have bp: "0 < bitlen (n div 2)" using p by (simp add: bitlen.simps[of "n div 2"])
    have b: "bitlen n = Suc (bitlen (n div 2))" using n0 by (simp add: bitlen.simps[of n])
    have "(2::nat) ^ bitlen (n div 2) = 2 * 2 ^ (bitlen (n div 2) - 1)"
      using bp by (cases "bitlen (n div 2)") simp_all
    then have lo: "(2::nat) ^ (bitlen n - 1) \<le> n" using ih(1) b by simp
    have "n < 2 * (n div 2 + 1)" by simp
    also have "\<dots> \<le> 2 * 2 ^ bitlen (n div 2)" using ih(2) by simp
    finally have hi: "n < 2 ^ bitlen n" by (simp add: b)
    from lo hi show ?thesis ..
  qed
qed

lemma bitlen_unique:
  assumes "2 ^ (b - 1) \<le> n" "n < 2 ^ b" "0 < b"
  shows "bitlen n = b"
proof -
  from assms(1) have n: "0 < n" by (cases "n = 0") simp_all
  from bitlen_bounds[OF n] have lo: "2 ^ (bitlen n - 1) \<le> n" and hi: "n < 2 ^ bitlen n"
    by simp_all
  have c0: "0 < bitlen n" using n by (simp add: bitlen.simps[of n])
  have "\<not> bitlen n < b"
  proof
    assume "bitlen n < b"
    then have "bitlen n \<le> b - 1" by simp
    then have "(2::nat) ^ bitlen n \<le> 2 ^ (b - 1)" by (simp add: power_increasing)
    then have "2 ^ bitlen n \<le> n" using assms(1) by (rule order_trans)
    with hi show False by simp
  qed
  moreover have "\<not> b < bitlen n"
  proof
    assume "b < bitlen n"
    then have "b \<le> bitlen n - 1" by simp
    then have "(2::nat) ^ b \<le> 2 ^ (bitlen n - 1)" by (simp add: power_increasing)
    then have "2 ^ b \<le> n" using lo by (rule order_trans)
    with assms(2) show False by simp
  qed
  ultimately show ?thesis by simp
qed

lemma roundedProduct_less:
  assumes m53: "mant d < 2 ^ 53" and m1: "mant d < 2 ^ scale d" and n: "0 < n"
  shows "roundedProduct d n < n * 2 ^ scale d"
proof -
  let ?p = "mant d * n" and ?k = "scale d"
  have "mant d + 1 \<le> 2 ^ ?k" using m1 by simp
  then have "(mant d + 1) * n \<le> 2 ^ ?k * n" by (rule mult_le_mono1)
  then have pn: "?p + n \<le> n * 2 ^ ?k" by (simp add: algebra_simps)
  show ?thesis
  proof (cases "bitlen ?p \<le> 53")
    case True
    then have "roundedProduct d n = ?p" by (simp add: roundedProduct_def)
    then show ?thesis using m1 n by simp
  next
    case False
    define s where "s = bitlen ?p - 53"
    define q where "q = ?p div 2 ^ s"
    define r where "r = ?p mod 2 ^ s"
    have s1: "1 \<le> s" using False by (simp add: s_def)
    have p0: "0 < ?p" using False by (cases "?p = 0") (simp_all add: bitlen.simps)
    have pq: "?p = q * 2 ^ s + r" unfolding q_def r_def by (rule div_mult_mod_eq[symmetric])
    have rp: "roundedProduct d n =
        (if r > 2 ^ (s - 1) \<or> (r = 2 ^ (s - 1) \<and> odd q) then q + 1 else q) * 2 ^ s"
      using False by (simp add: roundedProduct_def Let_def s_def q_def r_def)
    have "(2::nat) ^ (bitlen ?p - 1) \<le> ?p" using bitlen_bounds[OF p0] by simp
    moreover have "bitlen ?p - 1 = (s - 1) + 53" using False s1 by (simp add: s_def)
    ultimately have "(2::nat) ^ (s - 1) * 2 ^ 53 \<le> ?p" by (simp add: power_add)
    also have "?p < 2 ^ 53 * n" using m53 n by simp
    finally have hn: "(2::nat) ^ (s - 1) < n" by simp
    have two: "(2::nat) ^ s = 2 * 2 ^ (s - 1)" using s1 by (cases s) simp_all
    show ?thesis
    proof (cases "r > 2 ^ (s - 1) \<or> (r = 2 ^ (s - 1) \<and> odd q)")
      case True
      then have "2 ^ (s - 1) \<le> r" by auto
      then have "(q + 1) * 2 ^ s \<le> ?p + 2 ^ (s - 1)"
        using pq two by (simp add: algebra_simps)
      also have "\<dots> < ?p + n" using hn by simp
      also have "\<dots> \<le> n * 2 ^ ?k" by (rule pn)
      finally show ?thesis using True by (simp add: rp)
    next
      case False
      then have "roundedProduct d n = q * 2 ^ s" by (simp add: rp)
      also have "\<dots> \<le> ?p" by (simp add: pq)
      also have "\<dots> < n * 2 ^ ?k" using m1 n by simp
      finally show ?thesis .
    qed
  qed
qed

lemma random_index: "unitDouble d \<Longrightarrow> randomIndex d i \<le> i"
proof -
  assume "unitDouble d"
  then have "roundedProduct d (i + 1) < (i + 1) * 2 ^ scale d"
    by (intro roundedProduct_less) (simp_all add: unitDouble_def)
  then have "randomIndex d i < i + 1"
    unfolding randomIndex_def by (rule less_mult_imp_div_less)
  then show ?thesis by simp
qed

text \<open>
  Two products that are not doubles and round up to an integer:
  \<open>0.8333333333333333 * 6\<close> is \<open>5\<close>, and \<open>0.6666666666666666 * 3\<close> is \<open>2\<close>.
\<close>

lemma rounded_products:
  "randomIndex \<lparr>mant = 7505999378950826, scale = 53\<rparr> 5 = 5"
  "randomIndex \<lparr>mant = 6004799503160661, scale = 53\<rparr> 2 = 2"
proof -
  have "bitlen 45035996273704956 = 56" by (rule bitlen_unique) simp_all
  then show "randomIndex \<lparr>mant = 7505999378950826, scale = 53\<rparr> 5 = 5"
    by (simp add: randomIndex_def roundedProduct_def)
  have "bitlen 18014398509481983 = 54" by (rule bitlen_unique) simp_all
  then show "randomIndex \<lparr>mant = 6004799503160661, scale = 53\<rparr> 2 = 2"
    by (simp add: randomIndex_def roundedProduct_def)
qed

lemma unitDouble_nought: "unitDouble (always nought k)"
  by (simp add: unitDouble_def always_def nought_def)

lemma unitDouble_half: "unitDouble (always half k)"
  by (simp add: unitDouble_def always_def half_def)

lemma randomIndex_nought: "randomIndex (always nought k) i = 0"
  by (simp add: randomIndex_def roundedProduct_def always_def nought_def bitlen.simps)

lemma roundedProduct_small: "mant d * n < 2 ^ 53 \<Longrightarrow> roundedProduct d n = mant d * n"
proof -
  assume a: "mant d * n < 2 ^ 53"
  have "bitlen (mant d * n) \<le> 53"
  proof (cases "mant d * n = 0")
    case True then show ?thesis by (simp add: bitlen.simps)
  next
    case False
    then have "2 ^ (bitlen (mant d * n) - 1) \<le> mant d * n" using bitlen_bounds by simp
    with a have "(2::nat) ^ (bitlen (mant d * n) - 1) < 2 ^ 53" by simp
    then have "bitlen (mant d * n) - 1 < 53" by (simp only: power_strict_increasing_iff)
    then show ?thesis by simp
  qed
  then show ?thesis by (simp add: roundedProduct_def)
qed

lemma randomIndex_half: "i < 1000 \<Longrightarrow> randomIndex (always half k) i = (i + 1) div 2"
  by (simp add: randomIndex_def roundedProduct_small always_def half_def)

section \<open>Properties of shuffleArray\<close>

lemma length_shuffleLoop: "length (shuffleLoop random n xs) = length xs"
  by (induction n arbitrary: xs) (simp_all add: Let_def)

lemma mset_shuffleLoop:
  assumes "\<forall>k. unitDouble (random k)"
  shows "n < length xs \<Longrightarrow> mset (shuffleLoop random n xs) = mset xs"
proof (induction n arbitrary: xs)
  case 0
  then show ?case by simp
next
  case (Suc n)
  let ?j = "randomIndex (random (Suc n)) (Suc n)"
  let ?ys = "xs[Suc n := xs ! ?j, ?j := xs ! Suc n]"
  have j: "?j \<le> Suc n" using assms by (simp add: random_index)
  with Suc.prems have jl: "?j < length xs" by simp
  have "mset ?ys = mset xs" using Suc.prems jl by (simp add: mset_swap)
  moreover have "n < length ?ys" using Suc.prems by simp
  then have "mset (shuffleLoop random n ?ys) = mset ?ys" by (rule Suc.IH)
  ultimately show ?case by (simp add: Let_def)
qed

lemma shuffleLoop_above:
  assumes "\<forall>k. unitDouble (random k)"
  shows "n < p \<Longrightarrow> shuffleLoop random n xs ! p = xs ! p"
proof (induction n arbitrary: xs)
  case 0
  then show ?case by simp
next
  case (Suc n)
  let ?j = "randomIndex (random (Suc n)) (Suc n)"
  let ?ys = "xs[Suc n := xs ! ?j, ?j := xs ! Suc n]"
  have j: "?j \<le> Suc n" using assms by (simp add: random_index)
  from Suc.prems have "n < p" by simp
  then have "shuffleLoop random n ?ys ! p = ?ys ! p" by (rule Suc.IH)
  also have "?ys ! p = xs ! p" using Suc.prems j by simp
  finally show ?case by (simp add: Let_def)
qed

lemma length_shuffleArray: "length (shuffleArray random xs) = length xs"
  by (simp add: shuffleArray_def length_shuffleLoop)

lemma mset_shuffleArray:
  assumes "\<forall>k. unitDouble (random k)"
  shows "mset (shuffleArray random xs) = mset xs"
proof (cases xs)
  case Nil
  then show ?thesis by (simp add: shuffleArray_def)
next
  case (Cons x ys)
  then have "length xs - 1 < length xs" by simp
  then show ?thesis unfolding shuffleArray_def by (rule mset_shuffleLoop[OF assms])
qed

lemma set_shuffleArray:
  assumes "\<forall>k. unitDouble (random k)"
  shows "set (shuffleArray random xs) = set xs"
  using mset_shuffleArray[OF assms, of xs] by (rule mset_eq_setD)

lemma last_shuffleArray:
  assumes "\<forall>k. unitDouble (random k)" and "xs \<noteq> []"
  shows "last (shuffleArray random xs) =
         xs ! randomIndex (random (length xs - 1)) (length xs - 1)"
proof -
  let ?n = "length xs - 1"
  have ne: "shuffleArray random xs \<noteq> []"
    using assms(2) length_shuffleArray[of random xs] by (cases "shuffleArray random xs") auto
  have l: "last (shuffleArray random xs) = shuffleArray random xs ! ?n"
    using ne by (simp add: last_conv_nth length_shuffleArray)
  show ?thesis
  proof (cases ?n)
    case 0
    have "randomIndex (random 0) 0 \<le> 0" by (rule random_index) (simp add: assms(1))
    then show ?thesis using 0 l by (simp add: shuffleArray_def)
  next
    case (Suc m)
    let ?j = "randomIndex (random (Suc m)) (Suc m)"
    let ?ys = "xs[Suc m := xs ! ?j, ?j := xs ! Suc m]"
    have sm: "Suc m < length xs" using Suc by simp
    have "length xs - Suc 0 = Suc m" using Suc by simp
    then have "shuffleArray random xs ! Suc m = shuffleLoop random m ?ys ! Suc m"
      by (simp add: shuffleArray_def Let_def)
    also have "\<dots> = ?ys ! Suc m" using assms(1) by (simp add: shuffleLoop_above)
    also have "\<dots> = xs ! ?j" using sm by (cases "?j = Suc m") simp_all
    finally show ?thesis using l Suc by simp
  qed
qed

lemma shuffleLoop_store:
  "shuffled < length h \<Longrightarrow>
   shuffleLoop_store random n shuffled h = h[shuffled := shuffleLoop random n (h ! shuffled)]"
proof (induction n arbitrary: h)
  case 0
  then show ?case by simp
next
  case (Suc n)
  then show ?case by (simp add: Let_def)
qed

lemma shuffleArray_store_eq:
  "shuffleArray_store random h array = (length h, h @ [shuffleArray random (h ! array)])"
  by (simp add: shuffleArray_store_def Let_def shuffleLoop_store shuffleArray_def)

lemma randomIndex_half_small:
  "randomIndex (always half k) (Suc 0) = Suc 0"
  "randomIndex (always half k) (Suc (Suc 0)) = Suc 0"
  using randomIndex_half[of "Suc 0" k] randomIndex_half[of "Suc (Suc 0)" k] by simp_all

lemma shuffle_three_half: "shuffleArray (always half) [a, b, c] = [a, c, b]"
  by (simp add: shuffleArray_def Let_def eval_nat_numeral randomIndex_half_small)

lemma shuffle_five_nought: "shuffleArray (always nought) [a, b, c, d, e] = [b, c, d, e, a]"
  by (simp add: shuffleArray_def Let_def eval_nat_numeral randomIndex_nought)

text \<open>
  Claim C10. On a store of arrays, \<open>shuffleArray\<close> returns the address of a newly
  allocated array, which is none of the addresses in use and so not the address of
  its argument; the store after the call is the store before it with the new array
  added, so the argument (and every other array) holds the same elements in the same
  positions; and the new array holds the shuffled elements.
\<close>

theorem shuffleArray_leaves_input:
  assumes "array < length h"
  shows "fst (shuffleArray_store random h array) = length h \<and>
         snd (shuffleArray_store random h array) = h @ [shuffleArray random (h ! array)] \<and>
         snd (shuffleArray_store random h array) ! array = h ! array \<and>
         fst (shuffleArray_store random h array) \<noteq> array"
  using assms by (simp add: shuffleArray_store_eq nth_append)

theorem shuffleArray_leaves_input_witness:
  "snd (shuffleArray_store (always half) [[10, 20, 30 :: nat]] 0) = [[10, 20, 30], [10, 30, 20]] \<and>
   fst (shuffleArray_store (always half) [[10, 20, 30 :: nat]] 0) = 1"
  using shuffleArray_leaves_input[of 0 "[[10, 20, 30 :: nat]]" "always half"]
  by (simp add: shuffle_three_half)

section \<open>Properties of the question bank\<close>

lemma bank_lengths:
  "length dataStructures_easy = 5"
  "length dataStructures_medium = 5"
  "length dataStructures_hard = 5"
  "length algorithms_easy = 5"
  "length algorithms_medium = 5"
  "length algorithms_hard = 5"
  "length databaseManagement_easy = 5"
  "length databaseManagement_medium = 5"
  "length databaseManagement_hard = 5"
  "length operatingSystems_easy = 5"
  "length operatingSystems_medium = 5"
  "length operatingSystems_hard = 5"
  "length computerNetworks_easy = 5"
  "length computerNetworks_medium = 5"
  "length computerNetworks_hard = 5"
  "length webDevelopment_easy = 5"
  "length webDevelopment_medium = 5"
  "length webDevelopment_hard = 5"
  "length cloudComputing_easy = 5"
  "length cloudComputing_medium = 5"
  "length cloudComputing_hard = 5"
  "length devOps_easy = 5"
  "length devOps_medium = 5"
  "length devOps_hard = 5"
  by (simp_all add: dataStructures_easy_def dataStructures_medium_def dataStructures_hard_def algorithms_easy_def algorithms_medium_def algorithms_hard_def databaseManagement_easy_def databaseManagement_medium_def databaseManagement_hard_def operatingSystems_easy_def operatingSystems_medium_def operatingSystems_hard_def computerNetworks_easy_def computerNetworks_medium_def computerNetworks_hard_def webDevelopment_easy_def webDevelopment_medium_def webDevelopment_hard_def cloudComputing_easy_def cloudComputing_medium_def cloudComputing_hard_def devOps_easy_def devOps_medium_def devOps_hard_def)

lemma bank_wellFormed:
  "list_all wellFormed dataStructures_easy"
  "list_all wellFormed dataStructures_medium"
  "list_all wellFormed dataStructures_hard"
  "list_all wellFormed algorithms_easy"
  "list_all wellFormed algorithms_medium"
  "list_all wellFormed algorithms_hard"
  "list_all wellFormed databaseManagement_easy"
  "list_all wellFormed databaseManagement_medium"
  "list_all wellFormed databaseManagement_hard"
  "list_all wellFormed operatingSystems_easy"
  "list_all wellFormed operatingSystems_medium"
  "list_all wellFormed operatingSystems_hard"
  "list_all wellFormed computerNetworks_easy"
  "list_all wellFormed computerNetworks_medium"
  "list_all wellFormed computerNetworks_hard"
  "list_all wellFormed webDevelopment_easy"
  "list_all wellFormed webDevelopment_medium"
  "list_all wellFormed webDevelopment_hard"
  "list_all wellFormed cloudComputing_easy"
  "list_all wellFormed cloudComputing_medium"
  "list_all wellFormed cloudComputing_hard"
  "list_all wellFormed devOps_easy"
  "list_all wellFormed devOps_medium"
  "list_all wellFormed devOps_hard"
  by (simp_all add: dataStructures_easy_def dataStructures_medium_def dataStructures_hard_def algorithms_easy_def algorithms_medium_def algorithms_hard_def databaseManagement_easy_def databaseManagement_medium_def databaseManagement_hard_def operatingSystems_easy_def operatingSystems_medium_def operatingSystems_hard_def computerNetworks_easy_def computerNetworks_medium_def computerNetworks_hard_def webDevelopment_easy_def webDevelopment_medium_def webDevelopment_hard_def cloudComputing_easy_def cloudComputing_medium_def cloudComputing_hard_def devOps_easy_def devOps_medium_def devOps_hard_def wellFormed_def js_eq_Nil)

lemma bank2_lengths:
  "length dataStructures2 = 5"
  "length algorithms2 = 5"
  "length databaseManagement2 = 5"
  "length operatingSystems2 = 5"
  "length computerNetworks2 = 5"
  "length webDevelopment2 = 5"
  "length cloudComputing2 = 5"
  "length devOps2 = 5"
  by (simp_all add: dataStructures2_def algorithms2_def databaseManagement2_def operatingSystems2_def computerNetworks2_def webDevelopment2_def cloudComputing2_def devOps2_def)

lemma bank2_wellFormed:
  "list_all wellFormed dataStructures2"
  "list_all wellFormed algorithms2"
  "list_all wellFormed databaseManagement2"
  "list_all wellFormed operatingSystems2"
  "list_all wellFormed computerNetworks2"
  "list_all wellFormed webDevelopment2"
  "list_all wellFormed cloudComputing2"
  "list_all wellFormed devOps2"
  by (simp_all add: dataStructures2_def algorithms2_def databaseManagement2_def operatingSystems2_def computerNetworks2_def webDevelopment2_def cloudComputing2_def devOps2_def wellFormed_def js_eq_Nil)

lemma bank_entries:
  assumes "(name, e) \<in> set mockQuestions"
  shows "length (byDifficulty level e) = 5 \<and> list_all wellFormed (byDifficulty level e)"
proof -
  from assms have "e \<in> {dataStructures, algorithms, databaseManagement, operatingSystems, computerNetworks, webDevelopment, cloudComputing, devOps}"
    by (auto simp: mockQuestions_def)
  then show ?thesis
    by (cases level)
       (auto simp: dataStructures_def algorithms_def databaseManagement_def operatingSystems_def computerNetworks_def webDevelopment_def cloudComputing_def devOps_def bank_lengths bank_wellFormed)
qed

lemma bank2_entries:
  assumes "(name, l) \<in> set mockQuestions2"
  shows "length l = 5 \<and> list_all wellFormed l"
  using assms by (auto simp: mockQuestions2_def bank2_lengths bank2_wellFormed)

lemma wellFormed_passes: "wellFormed q \<longleftrightarrow> (\<exists>v. validateQuestion i (objectOf q) = Inr v)"
  by (auto simp: wellFormed_def validateQuestion_objectOf)

lemma wellFormed_usable: "wellFormed q \<Longrightarrow> usable q"
  by (simp add: wellFormed_def usable_def)

lemma member_known: "map_of obj name = Some e \<Longrightarrow> member obj name = Own e"
  by (simp add: member_def)

lemma member_unknown: "map_of obj name = None \<Longrightarrow> member obj name \<noteq> Own e"
  by (simp add: member_def)

lemma selectedQuestions_known:
  "map_of mockQuestions name = Some e \<Longrightarrow> selectedQuestions name level = byDifficulty level e"
  by (simp add: selectedQuestions_def member_known)

lemma selectedQuestions_unknown:
  "map_of mockQuestions name = None \<Longrightarrow> selectedQuestions name level = dataStructures_easy"
  by (simp add: selectedQuestions_def member_def dataStructures_def)

lemma selectedQuestions_ok:
  "length (selectedQuestions name level) = 5 \<and> list_all wellFormed (selectedQuestions name level)"
proof (cases "map_of mockQuestions name")
  case None
  then show ?thesis by (simp add: selectedQuestions_unknown bank_lengths bank_wellFormed)
next
  case (Some e)
  then have "(name, e) \<in> set mockQuestions" by (rule map_of_SomeD)
  then show ?thesis using Some by (simp add: selectedQuestions_known bank_entries)
qed

lemma generateMockQuestions_length: "length (generateMockQuestions random name level) = 5"
  by (simp add: generateMockQuestions_def length_shuffleArray selectedQuestions_ok)

lemma generateMockQuestions_set:
  assumes "\<forall>k. unitDouble (random k)"
  shows "set (generateMockQuestions random name level) = set (selectedQuestions name level)"
  by (simp add: generateMockQuestions_def length_shuffleArray selectedQuestions_ok
        set_shuffleArray[OF assms])

lemma generateMockQuestions_wellFormed:
  assumes "\<forall>k. unitDouble (random k)"
  shows "list_all wellFormed (generateMockQuestions random name level)"
  using selectedQuestions_ok[of name level]
  by (simp add: list_all_iff generateMockQuestions_set[OF assms])

lemma generateMockQuestions_known:
  assumes "map_of mockQuestions name = Some e"
  shows "generateMockQuestions random name Easy = take 5 (shuffleArray random (easy e))"
    and "generateMockQuestions random name Medium = take 5 (shuffleArray random (medium e))"
    and "generateMockQuestions random name Hard = take 5 (shuffleArray random (hard e))"
  using assms by (simp_all add: generateMockQuestions_def selectedQuestions_known)

lemma generateMockQuestions_unknown:
  "map_of mockQuestions name = None \<Longrightarrow>
   generateMockQuestions random name level = take 5 (shuffleArray random dataStructures_easy)"
  by (simp add: generateMockQuestions_def selectedQuestions_unknown)

lemma generateMockQuestions_mset:
  assumes "\<forall>k. unitDouble (random k)"
  shows "mset (generateMockQuestions random name level) = mset (selectedQuestions name level)"
  by (simp add: generateMockQuestions_def length_shuffleArray selectedQuestions_ok
        mset_shuffleArray[OF assms])

lemma algorithms_known: "map_of mockQuestions (js ''Algorithms'') = Some algorithms"
  by (simp add: mockQuestions_def js_eq_iff)

lemma algorithms2_known: "map_of mockQuestions2 (js ''Algorithms'') = Some algorithms2"
  by (simp add: mockQuestions2_def js_eq_iff)

lemma rotate_five:
  "length xs = 5 \<Longrightarrow>
   take 5 (shuffleArray (always nought) xs) = [xs ! 1, xs ! 2, xs ! 3, xs ! 4, xs ! 0]"
proof -
  assume "length xs = 5"
  then obtain a b c d e where "xs = [a, b, c, d, e]"
    by (auto simp: length_Suc_conv eval_nat_numeral)
  then show ?thesis by (simp add: shuffle_five_nought)
qed

lemma algorithms_easy_rotated:
  "generateMockQuestions (always nought) (js ''Algorithms'') Easy =
     [algorithms_easy ! 1, algorithms_easy ! 2, algorithms_easy ! 3, algorithms_easy ! 4,
      algorithms_easy ! 0]"
  by (simp add: generateMockQuestions_known(1)[OF algorithms_known] algorithms_def rotate_five
        bank_lengths)

lemma butlast_shuffleLoop:
  assumes "\<forall>k. unitDouble (random k)"
  shows "Suc n < length xs \<Longrightarrow> butlast (shuffleLoop random n xs) = shuffleLoop random n (butlast xs)"
proof (induction n arbitrary: xs)
  case 0
  then show ?case by simp
next
  case (Suc n)
  let ?j = "randomIndex (random (Suc n)) (Suc n)"
  let ?ys = "xs[Suc n := xs ! ?j, ?j := xs ! Suc n]"
  have j: "?j \<le> Suc n" using assms by (simp add: random_index)
  have "Suc n < length ?ys" using Suc.prems by simp
  then have "butlast (shuffleLoop random n ?ys) = shuffleLoop random n (butlast ?ys)"
    by (rule Suc.IH)
  moreover have "butlast ?ys = (butlast xs)[Suc n := butlast xs ! ?j, ?j := butlast xs ! Suc n]"
  proof -
    have b: "Suc n < length (butlast xs)" "?j < length (butlast xs)"
      using Suc.prems j by simp_all
    have n: "Suc n \<noteq> length xs - 1" "?j \<noteq> length xs - 1"
      using Suc.prems j by simp_all
    have "butlast ?ys = (butlast xs)[Suc n := xs ! ?j, ?j := xs ! Suc n]"
      using n by (simp add: butlast_list_update)
    then show ?thesis using b by (simp add: nth_butlast)
  qed
  ultimately show ?case by (simp add: Let_def)
qed

lemma butlast_shuffleArray:
  assumes "\<forall>k. unitDouble (random k)" and "xs \<noteq> []"
  shows "butlast (shuffleArray random xs) =
         shuffleArray random
           (butlast (xs[length xs - 1 := xs ! randomIndex (random (length xs - 1)) (length xs - 1),
                        randomIndex (random (length xs - 1)) (length xs - 1) := xs ! (length xs - 1)]))"
proof (cases "length xs - 1")
  case 0
  with assms(2) obtain x where "xs = [x]" by (cases xs) auto
  moreover have "randomIndex (random 0) 0 = 0"
    using random_index[of "random 0" 0] assms(1) by simp
  ultimately show ?thesis by (simp add: shuffleArray_def)
next
  case (Suc m)
  let ?j = "randomIndex (random (Suc m)) (Suc m)"
  let ?ys = "xs[Suc m := xs ! ?j, ?j := xs ! Suc m]"
  have l: "length xs - Suc 0 = Suc m" using Suc by simp
  have "Suc m < length ?ys" using Suc by simp
  then have "butlast (shuffleLoop random m ?ys) = shuffleLoop random m (butlast ?ys)"
    by (rule butlast_shuffleLoop[OF assms(1)])
  moreover have "length (butlast ?ys) - 1 = m" using Suc by simp
  ultimately show ?thesis by (simp add: shuffleArray_def l Let_def)
qed

text \<open>
  Claim C7. Whatever doubles from \<open>0\<close> (included) to \<open>1\<close> (excluded) \<open>Math.random\<close>
  returns, \<open>shuffleArray\<close> returns a permutation of its argument: the same elements with
  the same multiplicities, and so the same length. Which permutation it is follows
  the random numbers: the last element of the result is the element at the index
  that the first random number picks, and the rest of the result is the shuffle of
  the rest of the array after that swap. \<open>generateMockQuestions\<close> returns the first
  five entries of the shuffled list that it selected: for a subject of the bank the
  list of the difficulty asked for, for any other subject the easy questions of Data
  Structures.
\<close>

theorem shuffle_is_permutation:
  assumes "\<forall>k. unitDouble (random k)"
  shows "mset (shuffleArray random xs) = mset xs \<and>
         length (shuffleArray random xs) = length xs \<and>
         (xs \<noteq> [] \<longrightarrow>
            last (shuffleArray random xs) =
              xs ! randomIndex (random (length xs - 1)) (length xs - 1) \<and>
            butlast (shuffleArray random xs) =
              shuffleArray random
                (butlast (xs[length xs - 1 :=
                               xs ! randomIndex (random (length xs - 1)) (length xs - 1),
                             randomIndex (random (length xs - 1)) (length xs - 1) :=
                               xs ! (length xs - 1)]))) \<and>
         (\<forall>e. map_of mockQuestions name = Some e \<longrightarrow>
            generateMockQuestions random name Easy = take 5 (shuffleArray random (easy e)) \<and>
            generateMockQuestions random name Medium = take 5 (shuffleArray random (medium e)) \<and>
            generateMockQuestions random name Hard = take 5 (shuffleArray random (hard e))) \<and>
         (map_of mockQuestions name = None \<longrightarrow>
            generateMockQuestions random name level =
              take 5 (shuffleArray random dataStructures_easy))"
  using assms
  by (simp add: mset_shuffleArray length_shuffleArray last_shuffleArray butlast_shuffleArray
        generateMockQuestions_known generateMockQuestions_unknown)

theorem shuffle_is_permutation_witness:
  "mset (shuffleArray (always half) [10, 20, 30 :: nat]) = mset [10, 20, 30] \<and>
   length (shuffleArray (always half) [10, 20, 30 :: nat]) = 3 \<and>
   last (shuffleArray (always half) [10, 20, 30 :: nat]) = 20 \<and>
   butlast (shuffleArray (always half) [10, 20, 30 :: nat]) = shuffleArray (always half) [10, 30] \<and>
   generateMockQuestions (always half) (js ''Algorithms'') Medium =
     take 5 (shuffleArray (always half) algorithms_medium)"
  using shuffle_is_permutation[of "always half" "[10, 20, 30 :: nat]" "js ''Algorithms''" Easy]
  by (simp add: unitDouble_half randomIndex_half_small algorithms_known algorithms_def)

text \<open>
  Claim C6. For every subject of the bank and every difficulty, whatever doubles from
  \<open>0\<close> to \<open>1\<close> \<open>Math.random\<close> returns: with no API key the questions acquired are those
  of \<open>generateMockQuestions\<close>; there are exactly five of them, and the validator accepts
  each; for the difficulty easy they are the five easy questions of the subject in
  some order, for medium its five medium questions, and for hard its five hard
  questions. The second \<open>generateMockQuestions\<close>, whose bank has one list for each
  subject, returns that list, which has exactly five questions, and the validator
  accepts each.
\<close>

theorem fallback_serves_bank_questions:
  assumes "\<forall>k. unitDouble (random k)"
    and "map_of mockQuestions name = Some e"
    and "map_of mockQuestions2 name = Some l"
  shows "acquireQuestions NoApiKey random name level =
           Inr (generateMockQuestions random name level) \<and>
         length (generateMockQuestions random name level) = 5 \<and>
         (\<forall>q \<in> set (generateMockQuestions random name level).
            \<exists>v. validateQuestion i (objectOf q) = Inr v) \<and>
         mset (generateMockQuestions random name Easy) = mset (easy e) \<and>
         mset (generateMockQuestions random name Medium) = mset (medium e) \<and>
         mset (generateMockQuestions random name Hard) = mset (hard e) \<and>
         generateMockQuestions2 name level = Questions l \<and>
         length l = 5 \<and>
         (\<forall>q \<in> set l. \<exists>v. validateQuestion i (objectOf q) = Inr v)"
proof -
  have a: "acquireQuestions NoApiKey random name level =
             Inr (generateMockQuestions random name level)"
    by (simp add: acquireQuestions_def generateQuizQuestions_def)
  have m: "mset (generateMockQuestions random name Easy) = mset (easy e)"
    "mset (generateMockQuestions random name Medium) = mset (medium e)"
    "mset (generateMockQuestions random name Hard) = mset (hard e)"
    using generateMockQuestions_mset[OF assms(1)] assms(2)
    by (simp_all add: selectedQuestions_known)
  have w: "\<forall>q \<in> set (generateMockQuestions random name level). wellFormed q"
    using generateMockQuestions_wellFormed[OF assms(1)] by (simp add: list_all_iff)
  from assms(3) have "(name, l) \<in> set mockQuestions2" by (rule map_of_SomeD)
  then have l: "length l = 5" "\<forall>q \<in> set l. wellFormed q"
    using bank2_entries[of name l] by (simp_all add: list_all_iff)
  have g: "generateMockQuestions2 name level = Questions l"
    using assms(3) by (simp add: generateMockQuestions2_def member_known)
  show ?thesis
    using a m w l g generateMockQuestions_length[of random name level]
    by (simp add: wellFormed_passes[symmetric])
qed

theorem fallback_serves_bank_questions_witness:
  "acquireQuestions NoApiKey (always nought) (js ''Algorithms'') Hard =
     Inr (generateMockQuestions (always nought) (js ''Algorithms'') Hard) \<and>
   length (generateMockQuestions (always nought) (js ''Algorithms'') Hard) = 5 \<and>
   mset (generateMockQuestions (always nought) (js ''Algorithms'') Easy) = mset algorithms_easy \<and>
   mset (generateMockQuestions (always nought) (js ''Algorithms'') Medium) =
     mset algorithms_medium \<and>
   mset (generateMockQuestions (always nought) (js ''Algorithms'') Hard) = mset algorithms_hard \<and>
   generateMockQuestions2 (js ''Algorithms'') Hard = Questions algorithms2 \<and>
   length algorithms2 = 5"
  using fallback_serves_bank_questions[of "always nought" "js ''Algorithms''" algorithms
      algorithms2 Hard 0]
  by (simp add: unitDouble_nought algorithms_known algorithms2_known algorithms_def)

text \<open>
  A subject that is not a key of the bank: the first \<open>generateMockQuestions\<close> returns
  the shuffled easy questions of Data Structures for every such subject; the second
  returns the list of Data Structures unless the subject names a member of
  \<open>Object.prototype\<close>.
\<close>

lemma unknown_subject_default:
  assumes "\<forall>k. unitDouble (random k)" and "map_of mockQuestions name = None"
  shows "generateMockQuestions random name level = shuffleArray random dataStructures_easy \<and>
         mset (generateMockQuestions random name level) = mset dataStructures_easy"
  using assms
  by (simp add: generateMockQuestions_def selectedQuestions_unknown length_shuffleArray
        bank_lengths mset_shuffleArray)

lemma unknown_subject_default2:
  assumes "map_of mockQuestions2 name = None" and "name \<notin> set objectPrototypeNames"
  shows "generateMockQuestions2 name level = Questions dataStructures2"
  using assms by (simp add: generateMockQuestions2_def member_def)

text \<open>
  Claim C9, for the second \<open>generateMockQuestions\<close> (line 1367), at the subject
  \<open>constructor\<close>: the subject is not a key of the bank, and the function returns the
  inherited member \<open>mockQuestions['constructor']\<close> instead of the questions of the
  default subject.
\<close>

theorem second_fallback_returns_prototype_member:
  "map_of mockQuestions2 (js ''constructor'') = None \<and>
   generateMockQuestions2 (js ''constructor'') Medium = PrototypeMember (js ''constructor'')"
  by (simp add: mockQuestions2_def generateMockQuestions2_def member_def objectPrototypeNames_def
        js_eq_iff)

section \<open>Properties of the acquisition\<close>

lemma validateQuestion_usable: "validateQuestion i c = Inr v \<Longrightarrow> usable v"
  by (drule validateQuestion_Inr) (auto simp: usable_def)

lemma validateAll_usable: "validateAll i cs = Inr vs \<Longrightarrow> list_all usable vs"
proof (induction cs arbitrary: i vs)
  case Nil
  then show ?case by simp
next
  case (Cons c cs)
  from Cons.prems obtain v ws where
    v: "validateQuestion i c = Inr v" and ws: "validateAll (i + 1) cs = Inr ws"
    and vs: "vs = v # ws"
    by (auto split: sum.splits)
  from v have "usable v" by (rule validateQuestion_usable)
  moreover from ws have "list_all usable ws" by (rule Cons.IH)
  ultimately show ?case by (simp add: vs)
qed

lemma generateQuizQuestions_usable:
  "generateQuizQuestions remote name level n = Inr vs \<Longrightarrow> list_all usable vs"
  by (auto simp: generateQuizQuestions_def split: remote.splits json.splits
           dest: validateAll_usable)

lemma generateQuizQuestions_count:
  "generateQuizQuestions remote name level n = generateQuizQuestions remote name level m"
  by (simp add: generateQuizQuestions_def)

lemma acquireQuestions_cases:
  "acquireQuestions remote random name level =
     Inr (case generateQuizQuestions remote name level 5 of
            Inr vs \<Rightarrow> vs
          | Inl e \<Rightarrow> generateMockQuestions random name level)"
  by (simp add: acquireQuestions_def split: sum.splits)

text \<open>
  Claim C1, as the code has it. For every answer of the remote service, every subject
  and difficulty, and whatever doubles from \<open>0\<close> to \<open>1\<close> \<open>Math.random\<close> returns:
  whenever \<open>generateQuizQuestions\<close> throws (for any requested count and with any
  error: no API key, a failed request, an unreadable or unparsable response, a value
  that is not an array, a candidate that fails validation), the acquisition returns
  the questions of \<open>generateMockQuestions\<close>, which are five questions that the
  validator accepts; when \<open>generateQuizQuestions\<close> returns a batch, the acquisition
  returns that batch, every question of which has four options and a correct answer
  from \<open>0\<close> to \<open>3\<close>, and whose length is not checked; and in both cases
  \<open>handleSelectSubject\<close> stores the list, shows the quiz, and sets no error.
\<close>

theorem acquisition_never_fails:
  assumes "\<forall>k. unitDouble (random k)"
  shows "(\<forall>e n. generateQuizQuestions remote (subject selectionData) (difficulty selectionData) n =
              Inl e \<longrightarrow>
            acquireQuestions remote random (subject selectionData) (difficulty selectionData) =
              Inr (generateMockQuestions random (subject selectionData) (difficulty selectionData)) \<and>
            questions (handleSelectSubject remote random selectionData a) =
              generateMockQuestions random (subject selectionData) (difficulty selectionData)) \<and>
         length (generateMockQuestions random (subject selectionData) (difficulty selectionData)) = 5 \<and>
         (\<forall>q \<in> set (generateMockQuestions random (subject selectionData) (difficulty selectionData)).
            usable q \<and> (\<exists>v. validateQuestion 0 (objectOf q) = Inr v)) \<and>
         (\<forall>vs. generateQuizQuestions remote (subject selectionData) (difficulty selectionData) 5 =
              Inr vs \<longrightarrow>
            acquireQuestions remote random (subject selectionData) (difficulty selectionData) =
              Inr vs \<and>
            questions (handleSelectSubject remote random selectionData a) = vs \<and>
            list_all usable vs) \<and>
         appState (handleSelectSubject remote random selectionData a) = Quiz \<and>
         error (handleSelectSubject remote random selectionData a) = None \<and>
         \<not> loading (handleSelectSubject remote random selectionData a)"
proof -
  let ?name = "subject selectionData" and ?level = "difficulty selectionData"
  let ?r = "generateQuizQuestions remote ?name ?level 5"
  let ?qs = "case ?r of Inr vs \<Rightarrow> vs | Inl e \<Rightarrow> generateMockQuestions random ?name ?level"
  have h: "handleSelectSubject remote random selectionData a =
             a\<lparr>selectedSubject := Some ?name, selectedDifficulty := Some ?level,
               appState := Quiz, error := None, loading := False, questions := ?qs\<rparr>"
    by (simp add: handleSelectSubject_def acquireQuestions_cases Let_def)
  have fb: "\<forall>e n. generateQuizQuestions remote ?name ?level n = Inl e \<longrightarrow>
              acquireQuestions remote random ?name ?level =
                Inr (generateMockQuestions random ?name ?level) \<and>
              questions (handleSelectSubject remote random selectionData a) =
                generateMockQuestions random ?name ?level"
  proof (intro allI impI)
    fix e n assume "generateQuizQuestions remote ?name ?level n = Inl e"
    then have "?r = Inl e" by (simp add: generateQuizQuestions_count[of remote ?name ?level 5 n])
    then show "acquireQuestions remote random ?name ?level =
                 Inr (generateMockQuestions random ?name ?level) \<and>
               questions (handleSelectSubject remote random selectionData a) =
                 generateMockQuestions random ?name ?level"
      by (simp add: acquireQuestions_def h)
  qed
  have ok: "\<forall>vs. ?r = Inr vs \<longrightarrow>
              acquireQuestions remote random ?name ?level = Inr vs \<and>
              questions (handleSelectSubject remote random selectionData a) = vs \<and>
              list_all usable vs"
  proof (intro allI impI)
    fix vs assume r: "?r = Inr vs"
    then have "list_all usable vs" by (rule generateQuizQuestions_usable)
    with r show "acquireQuestions remote random ?name ?level = Inr vs \<and>
              questions (handleSelectSubject remote random selectionData a) = vs \<and>
              list_all usable vs"
      by (simp add: acquireQuestions_def h)
  qed
  have w: "\<forall>q \<in> set (generateMockQuestions random ?name ?level). wellFormed q"
    using generateMockQuestions_wellFormed[OF assms] by (simp add: list_all_iff)
  then have u: "\<forall>q \<in> set (generateMockQuestions random ?name ?level).
                  usable q \<and> (\<exists>v. validateQuestion 0 (objectOf q) = Inr v)"
    by (auto simp: wellFormed_usable wellFormed_passes[symmetric])
  have s: "appState (handleSelectSubject remote random selectionData a) = Quiz"
    "error (handleSelectSubject remote random selectionData a) = None"
    "\<not> loading (handleSelectSubject remote random selectionData a)"
    by (simp_all add: h)
  from fb ok u s generateMockQuestions_length[of random ?name ?level] show ?thesis by blast
qed

theorem acquisition_never_fails_witness:
  "acquireQuestions NoApiKey (always nought) (js ''Algorithms'') Easy =
     Inr [algorithms_easy ! 1, algorithms_easy ! 2, algorithms_easy ! 3, algorithms_easy ! 4,
          algorithms_easy ! 0] \<and>
   acquireQuestions ResponseNotOk (always nought) (js ''Algorithms'') Easy =
     Inr [algorithms_easy ! 1, algorithms_easy ! 2, algorithms_easy ! 3, algorithms_easy ! 4,
          algorithms_easy ! 0] \<and>
   acquireQuestions NotJson (always nought) (js ''Algorithms'') Easy =
     Inr [algorithms_easy ! 1, algorithms_easy ! 2, algorithms_easy ! 3, algorithms_easy ! 4,
          algorithms_easy ! 0] \<and>
   acquireQuestions (Parsed (JArr [JNull])) (always nought) (js ''Algorithms'') Easy =
     Inr [algorithms_easy ! 1, algorithms_easy ! 2, algorithms_easy ! 3, algorithms_easy ! 4,
          algorithms_easy ! 0] \<and>
   appState (handleSelectSubject NoApiKey (always nought)
       \<lparr>subject = js ''Algorithms'', difficulty = Easy\<rparr>
       \<lparr>appState = Selection, selectedSubject = None, selectedDifficulty = None,
        questions = [], quizResults = None, loading = False, error = None\<rparr>) = Quiz \<and>
   questions (handleSelectSubject NoApiKey (always nought)
       \<lparr>subject = js ''Algorithms'', difficulty = Easy\<rparr>
       \<lparr>appState = Selection, selectedSubject = None, selectedDifficulty = None,
        questions = [], quizResults = None, loading = False, error = None\<rparr>) =
     [algorithms_easy ! 1, algorithms_easy ! 2, algorithms_easy ! 3, algorithms_easy ! 4,
      algorithms_easy ! 0]"
  using
    acquisition_never_fails[of "always nought" NoApiKey
       "\<lparr>subject = js ''Algorithms'', difficulty = Easy\<rparr>"
       "\<lparr>appState = Selection, selectedSubject = None, selectedDifficulty = None,
        questions = [], quizResults = None, loading = False, error = None\<rparr>"]
    acquisition_never_fails[of "always nought" ResponseNotOk
       "\<lparr>subject = js ''Algorithms'', difficulty = Easy\<rparr>"]
    acquisition_never_fails[of "always nought" NotJson
       "\<lparr>subject = js ''Algorithms'', difficulty = Easy\<rparr>"]
    acquisition_never_fails[of "always nought" "Parsed (JArr [JNull])"
       "\<lparr>subject = js ''Algorithms'', difficulty = Easy\<rparr>"]
  by (simp add: unitDouble_nought generateQuizQuestions_def validateQuestion_def
        algorithms_easy_rotated)

text \<open>
  Claim C1 as the specification states it fails: when the remote service answers with
  the empty array, \<open>generateQuizQuestions\<close> returns it, no fallback happens, and the quiz
  is shown with no question, so that the component has nothing to render.
\<close>

theorem empty_remote_batch_is_accepted:
  "acquireQuestions (Parsed (JArr [])) (always nought) (js ''Algorithms'') Easy = Inr [] \<and>
   questions (handleSelectSubject (Parsed (JArr [])) (always nought)
       \<lparr>subject = js ''Algorithms'', difficulty = Easy\<rparr>
       \<lparr>appState = Selection, selectedSubject = None, selectedDifficulty = None,
        questions = [], quizResults = None, loading = False, error = None\<rparr>) = [] \<and>
   appState (handleSelectSubject (Parsed (JArr [])) (always nought)
       \<lparr>subject = js ''Algorithms'', difficulty = Easy\<rparr>
       \<lparr>appState = Selection, selectedSubject = None, selectedDifficulty = None,
        questions = [], quizResults = None, loading = False, error = None\<rparr>) = Quiz \<and>
   \<not> rendered (startQuiz (Parsed (JArr [])) (always nought)
       \<lparr>subject = js ''Algorithms'', difficulty = Easy\<rparr>
       \<lparr>appState = Selection, selectedSubject = None, selectedDifficulty = None,
        questions = [], quizResults = None, loading = False, error = None\<rparr>)"
  by (simp add: acquireQuestions_def generateQuizQuestions_def handleSelectSubject_def
        rendered_def startQuiz_def Let_def)

section \<open>Properties of the quiz\<close>

lemma countCorrect_prefix:
  assumes "answers i = None"
  shows "length (filter (\<lambda>m. case (answers(i \<mapsto> k)) m of
                                 Some c \<Rightarrow> of_nat c = correctAnswer (qs ! m)
                               | None \<Rightarrow> False) [0..<n]) =
         length (filter (\<lambda>m. case answers m of
                                 Some c \<Rightarrow> of_nat c = correctAnswer (qs ! m)
                               | None \<Rightarrow> False) [0..<n]) +
         (if i < n \<and> of_nat k = correctAnswer (qs ! i) then 1 else 0)"
proof (induction n)
  case 0
  then show ?case by simp
next
  case (Suc n)
  show ?case
  proof (cases "n = i")
    case True
    then show ?thesis using Suc assms by simp
  next
    case False
    then show ?thesis using Suc by (auto simp: less_Suc_eq)
  qed
qed

lemma countCorrect_answer:
  assumes "i < length qs" "answers i = None"
  shows "countCorrect qs (answers(i \<mapsto> k)) =
         countCorrect qs answers + (if of_nat k = correctAnswer (qs ! i) then 1 else 0)"
  unfolding countCorrect_def
  using countCorrect_prefix[where answers = answers and i = i and k = k and qs = qs
      and n = "length qs"] assms by simp

lemma countCorrect_empty: "countCorrect qs Map.empty = 0"
  by (simp add: countCorrect_def)

lemma press_questions: "questions (application (press e x)) = questions (application x)"
  by (cases e)
     (auto simp: handleAnswerClick_def handleNext_def handleQuizComplete_def
           split: sum.splits advance.splits if_splits)

lemma press_answer_scored:
  assumes "scored x"
  shows "scored (press (AnswerQuestion k) x)"
proof (cases "optionEnabled x k")
  case False
  then show ?thesis using assms by simp
next
  case True
  let ?s = "display x" and ?qs = "questions (application x)"
  from True have q: "appState (application x) = Quiz" and c: "currentQuestion ?s < length ?qs"
    and n: "selectedAnswers ?s (currentQuestion ?s) = None"
    by (simp_all add: optionEnabled_def rendered_def isAnswered_def)
  from assms q have sc: "score ?s = countCorrect ?qs (selectedAnswers ?s)"
    by (simp add: scored_def)
  show ?thesis
    using True q c n sc
    by (simp add: scored_def handleAnswerClick_def countCorrect_answer)
qed

lemma press_advance_scored:
  assumes "scored x"
  shows "scored (press Advance x)"
proof (cases "nextEnabled x")
  case False
  then show ?thesis using assms by simp
next
  case True
  then have q: "appState (application x) = Quiz" by (simp add: nextEnabled_def rendered_def)
  with assms have sc: "score (display x) =
      countCorrect (questions (application x)) (selectedAnswers (display x))"
    by (simp add: scored_def)
  show ?thesis
    using True q sc
    by (simp add: scored_def handleNext_def handleQuizComplete_def)
qed

lemma press_scored: "scored x \<Longrightarrow> scored (press e x)"
  by (cases e) (simp_all only: press_answer_scored press_advance_scored)

lemma run_scored: "scored x \<Longrightarrow> scored (run events x)"
  unfolding run_def by (induction events arbitrary: x) (simp_all add: press_scored)

lemma handleSelectSubject_eq:
  "handleSelectSubject remote random selectionData a =
     a\<lparr>selectedSubject := Some (subject selectionData),
       selectedDifficulty := Some (difficulty selectionData),
       appState := Quiz, error := None, loading := False,
       questions := (case generateQuizQuestions remote (subject selectionData)
                            (difficulty selectionData) 5 of
                       Inr vs \<Rightarrow> vs
                     | Inl e \<Rightarrow> generateMockQuestions random (subject selectionData)
                                  (difficulty selectionData))\<rparr>"
  by (simp add: handleSelectSubject_def acquireQuestions_cases Let_def)

lemma startQuiz_scored: "scored (startQuiz remote random selectionData a)"
  by (simp add: scored_def startQuiz_def handleSelectSubject_eq initialQuiz_def countCorrect_empty)

lemma perfect_run:
  assumes acq: "acquireQuestions remote random (subject selectionData) (difficulty selectionData) =
                  Inr [q0, q1, q2, q3, q4]"
    and c0: "correctAnswer q0 = of_nat c0" "c0 < length (options q0)"
    and c1: "correctAnswer q1 = of_nat c1" "c1 < length (options q1)"
    and c2: "correctAnswer q2 = of_nat c2" "c2 < length (options q2)"
    and c3: "correctAnswer q3 = of_nat c3" "c3 < length (options q3)"
    and c4: "correctAnswer q4 = of_nat c4" "c4 < length (options q4)"
  shows "appState (application (run [AnswerQuestion c0, Advance, AnswerQuestion c1, Advance,
            AnswerQuestion c2, Advance, AnswerQuestion c3, Advance, AnswerQuestion c4, Advance]
           (startQuiz remote random selectionData a))) = Results \<and>
         quizResults (application (run [AnswerQuestion c0, Advance, AnswerQuestion c1, Advance,
            AnswerQuestion c2, Advance, AnswerQuestion c3, Advance, AnswerQuestion c4, Advance]
           (startQuiz remote random selectionData a))) =
           Some \<lparr>score_result = 5, totalQuestions = 5\<rparr>"
proof -
  have h: "handleSelectSubject remote random selectionData a =
             a\<lparr>selectedSubject := Some (subject selectionData),
               selectedDifficulty := Some (difficulty selectionData),
               appState := Quiz, error := None, loading := False,
               questions := [q0, q1, q2, q3, q4]\<rparr>"
    by (simp add: handleSelectSubject_def acq Let_def)
  show ?thesis
    using c0 c1 c2 c3 c4
    by (simp add: run_def startQuiz_def h initialQuiz_def optionEnabled_def nextEnabled_def
          rendered_def isAnswered_def handleAnswerClick_def handleNext_def
          handleQuizComplete_def)
qed

text \<open>
  Claim C3. The states of a quiz are those that presses of its rendered, enabled
  controls produce from the start of the quiz. In every such state that shows the
  results, the reported score is the number of question indices whose recorded
  answer is the correct answer of the question, and the reported total is the number
  of questions. In particular, when the quiz has five questions and each is answered
  with its correct option and followed by a press of the next button, the results
  are shown with score \<open>5\<close> of \<open>5\<close>.
\<close>

theorem results_report_counted_score:
  "(appState (application (run events (startQuiz remote random selectionData a))) = Results \<longrightarrow>
      quizResults (application (run events (startQuiz remote random selectionData a))) =
        Some \<lparr>score_result =
                countCorrect
                  (questions (application (run events (startQuiz remote random selectionData a))))
                  (selectedAnswers (display (run events (startQuiz remote random selectionData a)))),
              totalQuestions =
                length (questions (application (run events (startQuiz remote random selectionData a))))\<rparr>) \<and>
   (acquireQuestions remote random (subject selectionData) (difficulty selectionData) =
      Inr [q0, q1, q2, q3, q4] \<and>
    correctAnswer q0 = of_nat c0 \<and> c0 < length (options q0) \<and>
    correctAnswer q1 = of_nat c1 \<and> c1 < length (options q1) \<and>
    correctAnswer q2 = of_nat c2 \<and> c2 < length (options q2) \<and>
    correctAnswer q3 = of_nat c3 \<and> c3 < length (options q3) \<and>
    correctAnswer q4 = of_nat c4 \<and> c4 < length (options q4) \<longrightarrow>
      appState (application (run [AnswerQuestion c0, Advance, AnswerQuestion c1, Advance,
            AnswerQuestion c2, Advance, AnswerQuestion c3, Advance, AnswerQuestion c4, Advance]
           (startQuiz remote random selectionData a))) = Results \<and>
      quizResults (application (run [AnswerQuestion c0, Advance, AnswerQuestion c1, Advance,
            AnswerQuestion c2, Advance, AnswerQuestion c3, Advance, AnswerQuestion c4, Advance]
           (startQuiz remote random selectionData a))) =
        Some \<lparr>score_result = 5, totalQuestions = 5\<rparr>)"
proof (intro conjI impI)
  let ?x = "run events (startQuiz remote random selectionData a)"
  assume r: "appState (application ?x) = Results"
  have "scored ?x" by (intro run_scored startQuiz_scored)
  with r show "quizResults (application ?x) =
      Some \<lparr>score_result = countCorrect (questions (application ?x)) (selectedAnswers (display ?x)),
            totalQuestions = length (questions (application ?x))\<rparr>"
    by (simp add: scored_def)
next
  assume "acquireQuestions remote random (subject selectionData) (difficulty selectionData) =
      Inr [q0, q1, q2, q3, q4] \<and>
    correctAnswer q0 = of_nat c0 \<and> c0 < length (options q0) \<and>
    correctAnswer q1 = of_nat c1 \<and> c1 < length (options q1) \<and>
    correctAnswer q2 = of_nat c2 \<and> c2 < length (options q2) \<and>
    correctAnswer q3 = of_nat c3 \<and> c3 < length (options q3) \<and>
    correctAnswer q4 = of_nat c4 \<and> c4 < length (options q4)"
  then show "appState (application (run [AnswerQuestion c0, Advance, AnswerQuestion c1, Advance,
            AnswerQuestion c2, Advance, AnswerQuestion c3, Advance, AnswerQuestion c4, Advance]
           (startQuiz remote random selectionData a))) = Results"
    and "quizResults (application (run [AnswerQuestion c0, Advance, AnswerQuestion c1, Advance,
            AnswerQuestion c2, Advance, AnswerQuestion c3, Advance, AnswerQuestion c4, Advance]
           (startQuiz remote random selectionData a))) =
        Some \<lparr>score_result = 5, totalQuestions = 5\<rparr>"
    using perfect_run[of remote random selectionData q0 q1 q2 q3 q4 c0 c1 c2 c3 c4 a] by simp_all
qed

lemma algorithms_easy_acquired:
  "acquireQuestions NoApiKey (always nought) (js ''Algorithms'') Easy =
     Inr [algorithms_easy ! 1, algorithms_easy ! 2, algorithms_easy ! 3, algorithms_easy ! 4,
          algorithms_easy ! 0]"
  by (simp add: acquireQuestions_def generateQuizQuestions_def algorithms_easy_rotated)

theorem results_report_counted_score_witness:
  "appState (application (run [AnswerQuestion 2, Advance, AnswerQuestion 2, Advance,
       AnswerQuestion 1, Advance, AnswerQuestion 1, Advance, AnswerQuestion 1, Advance]
      (startQuiz NoApiKey (always nought) \<lparr>subject = js ''Algorithms'', difficulty = Easy\<rparr>
         \<lparr>appState = Selection, selectedSubject = None, selectedDifficulty = None,
          questions = [], quizResults = None, loading = False, error = None\<rparr>))) = Results \<and>
   quizResults (application (run [AnswerQuestion 2, Advance, AnswerQuestion 2, Advance,
       AnswerQuestion 1, Advance, AnswerQuestion 1, Advance, AnswerQuestion 1, Advance]
      (startQuiz NoApiKey (always nought) \<lparr>subject = js ''Algorithms'', difficulty = Easy\<rparr>
         \<lparr>appState = Selection, selectedSubject = None, selectedDifficulty = None,
          questions = [], quizResults = None, loading = False, error = None\<rparr>))) =
     Some \<lparr>score_result = 5, totalQuestions = 5\<rparr>"
proof -
  have c: "correctAnswer (algorithms_easy ! 1) = of_nat 2 \<and> 2 < length (options (algorithms_easy ! 1)) \<and>
           correctAnswer (algorithms_easy ! 2) = of_nat 2 \<and> 2 < length (options (algorithms_easy ! 2)) \<and>
           correctAnswer (algorithms_easy ! 3) = of_nat 1 \<and> 1 < length (options (algorithms_easy ! 3)) \<and>
           correctAnswer (algorithms_easy ! 4) = of_nat 1 \<and> 1 < length (options (algorithms_easy ! 4)) \<and>
           correctAnswer (algorithms_easy ! 0) = of_nat 1 \<and> 1 < length (options (algorithms_easy ! 0))"
    by (simp add: algorithms_easy_def)
  show ?thesis
    using c algorithms_easy_acquired
      results_report_counted_score[where remote = NoApiKey and random = "always nought"
        and selectionData = "\<lparr>subject = js ''Algorithms'', difficulty = Easy\<rparr>"
        and a = "\<lparr>appState = Selection, selectedSubject = None, selectedDifficulty = None,
          questions = [], quizResults = None, loading = False, error = None\<rparr>"
        and ?q0.0 = "algorithms_easy ! 1" and ?q1.0 = "algorithms_easy ! 2"
        and ?q2.0 = "algorithms_easy ! 3" and ?q3.0 = "algorithms_easy ! 4"
        and ?q4.0 = "algorithms_easy ! 0"
        and ?c0.0 = 2 and ?c1.0 = 2 and ?c2.0 = 1 and ?c3.0 = 1 and ?c4.0 = 1]
    by simp
qed

text \<open>
  Claim C8, as the code has it. While the current question has no recorded answer the
  next button is disabled, so a press of it calls no handler and leaves the whole
  state unchanged; and a press of an option button leaves the index of the current
  question and the screen unchanged.
\<close>

theorem next_button_waits_for_answer:
  assumes "\<not> isAnswered (display x)"
  shows "press Advance x = x \<and>
         currentQuestion (display (press (AnswerQuestion k) x)) = currentQuestion (display x) \<and>
         appState (application (press (AnswerQuestion k) x)) = appState (application x)"
  using assms
  by (auto simp: nextEnabled_def handleAnswerClick_def split: sum.splits if_splits)

theorem next_button_waits_for_answer_witness:
  "press Advance
     \<lparr>application = \<lparr>appState = Quiz, selectedSubject = Some (js ''Algorithms''),
        selectedDifficulty = Some Easy, questions = algorithms_easy, quizResults = None,
        loading = False, error = None\<rparr>, display = initialQuiz\<rparr> =
   \<lparr>application = \<lparr>appState = Quiz, selectedSubject = Some (js ''Algorithms''),
        selectedDifficulty = Some Easy, questions = algorithms_easy, quizResults = None,
        loading = False, error = None\<rparr>, display = initialQuiz\<rparr>"
proof -
  have "\<not> isAnswered initialQuiz" by (simp add: isAnswered_def initialQuiz_def)
  then show ?thesis
    using next_button_waits_for_answer[of "\<lparr>application = \<lparr>appState = Quiz,
        selectedSubject = Some (js ''Algorithms''),
        selectedDifficulty = Some Easy, questions = algorithms_easy, quizResults = None,
        loading = False, error = None\<rparr>, display = initialQuiz\<rparr>" 0]
    by simp
qed

text \<open>
  Claim C8 as the specification states it fails: the handler \<open>handleNext\<close> has no guard
  of its own. Called while the first question is unanswered, it moves to the second
  question, and with a single question it completes the quiz.
\<close>

theorem handleNext_advances_unanswered:
  "\<not> isAnswered initialQuiz \<and>
   handleNext algorithms_easy initialQuiz =
     Next \<lparr>currentQuestion = 1, score = 0, selectedAnswers = Map.empty, showResult = False\<rparr> \<and>
   handleNext (take 1 algorithms_easy) initialQuiz =
     Completed \<lparr>score_result = 0, totalQuestions = 1\<rparr>"
  by (simp add: isAnswered_def initialQuiz_def handleNext_def bank_lengths)

text \<open>
  Claim C2. In every state of the quiz and for every two options: when the first press
  of an option button records an answer for the current question, that answer is the
  option pressed, and a second press of any option button before advancing leaves the
  whole state unchanged, the answers and the score with it; and in every state whose
  current question is answered, a press of an option button changes nothing.
\<close>

theorem second_answer_is_ignored:
  "(optionEnabled x i \<longrightarrow>
      selectedAnswers (display (press (AnswerQuestion i) x)) (currentQuestion (display x)) = Some i \<and>
      press (AnswerQuestion j) (press (AnswerQuestion i) x) = press (AnswerQuestion i) x) \<and>
   (isAnswered (display x) \<longrightarrow> press (AnswerQuestion j) x = x)"
proof (intro conjI impI)
  assume e: "optionEnabled x i"
  then have c: "currentQuestion (display x) < length (questions (application x))"
    and n: "selectedAnswers (display x) (currentQuestion (display x)) = None"
    by (simp_all add: optionEnabled_def rendered_def isAnswered_def)
  from e c n show
    "selectedAnswers (display (press (AnswerQuestion i) x)) (currentQuestion (display x)) = Some i"
    by (simp add: handleAnswerClick_def)
  from e c n have "isAnswered (display (press (AnswerQuestion i) x))"
    by (simp add: handleAnswerClick_def isAnswered_def)
  then show "press (AnswerQuestion j) (press (AnswerQuestion i) x) = press (AnswerQuestion i) x"
    by (simp add: optionEnabled_def)
next
  assume "isAnswered (display x)"
  then show "press (AnswerQuestion j) x = x" by (simp add: optionEnabled_def)
qed

theorem second_answer_is_ignored_witness:
  "press (AnswerQuestion 1) (press (AnswerQuestion 0)
     \<lparr>application = \<lparr>appState = Quiz, selectedSubject = Some (js ''Web Development''),
        selectedDifficulty = Some Easy, questions = webDevelopment_easy, quizResults = None,
        loading = False, error = None\<rparr>, display = initialQuiz\<rparr>) =
   \<lparr>application = \<lparr>appState = Quiz, selectedSubject = Some (js ''Web Development''),
        selectedDifficulty = Some Easy, questions = webDevelopment_easy, quizResults = None,
        loading = False, error = None\<rparr>,
    display = \<lparr>currentQuestion = 0, score = 1, selectedAnswers = [0 \<mapsto> 0], showResult = True\<rparr>\<rparr>"
proof -
  let ?x = "\<lparr>application = \<lparr>appState = Quiz, selectedSubject = Some (js ''Web Development''),
        selectedDifficulty = Some Easy, questions = webDevelopment_easy, quizResults = None,
        loading = False, error = None\<rparr>, display = initialQuiz\<rparr>"
  have q: "correctAnswer (webDevelopment_easy ! 0) = 0" "length (options (webDevelopment_easy ! 0)) = 4"
    "length webDevelopment_easy = 5"
    by (simp_all add: webDevelopment_easy_def)
  have e: "optionEnabled ?x 0"
    by (simp add: optionEnabled_def rendered_def isAnswered_def initialQuiz_def q)
  have p: "press (AnswerQuestion 0) ?x =
      ?x\<lparr>display := \<lparr>currentQuestion = 0, score = 1, selectedAnswers = [0 \<mapsto> 0],
                       showResult = True\<rparr>\<rparr>"
    using e by (simp add: handleAnswerClick_def initialQuiz_def q)
  have r: "press (AnswerQuestion 1) (press (AnswerQuestion 0) ?x) = press (AnswerQuestion 0) ?x"
    using e second_answer_is_ignored[of ?x 0 1] by blast
  show ?thesis unfolding r unfolding p by simp
qed

text \<open>
  The handler by itself, at the first easy question of Web Development, whose correct
  answer is option \<open>0\<close>: called a second time after it has recorded option \<open>0\<close>, it
  raises the score again or overwrites the answer, since its guard
  \<open>!selectedAnswers[currentQuestion]\<close> takes the recorded \<open>0\<close> for no answer. The option
  buttons are disabled by then, so no press reaches it.
\<close>

lemma second_answer_after_option_zero:

  "handleAnswerClick webDevelopment_easy 0 initialQuiz =
     Inr \<lparr>currentQuestion = 0, score = 1, selectedAnswers = [0 \<mapsto> 0], showResult = True\<rparr> \<and>
   handleAnswerClick webDevelopment_easy 0
     \<lparr>currentQuestion = 0, score = 1, selectedAnswers = [0 \<mapsto> 0], showResult = True\<rparr> =
     Inr \<lparr>currentQuestion = 0, score = 2, selectedAnswers = [0 \<mapsto> 0], showResult = True\<rparr> \<and>
   handleAnswerClick webDevelopment_easy 1
     \<lparr>currentQuestion = 0, score = 1, selectedAnswers = [0 \<mapsto> 0], showResult = True\<rparr> =
     Inr \<lparr>currentQuestion = 0, score = 1, selectedAnswers = [0 \<mapsto> 1], showResult = True\<rparr>"
proof -
  have "correctAnswer (webDevelopment_easy ! 0) = 0" "0 < length webDevelopment_easy"
    by (simp_all add: webDevelopment_easy_def)
  then show ?thesis
    by (simp add: handleAnswerClick_def initialQuiz_def)
qed

text \<open>A second answer is ignored when the recorded answer is not option \<open>0\<close>.\<close>

lemma second_answer_ignored:
  assumes "selectedAnswers s (currentQuestion s) = Some i" "i \<noteq> 0"
  shows "handleAnswerClick qs j s = Inr s"
  using assms by (simp add: handleAnswerClick_def)

end
